theory Spec2Isabelle
  imports
    Complex_Main
    "HOL-Library.Word"
    "HOL-Library.Char_ord"
    "HOL-Library.List_Lexorder"
    "HOL-Library.Multiset"
begin

unbundle bit_operations_syntax

section \<open>Errors\<close>

text \<open>
  Every way in which the Go code stops without a result is a value of \<open>error\<close>:
  the error returned by \<open>castTo\<close> for an unsupported destination, the error
  \<open>errOptionalNilValue\<close>, an error returned by \<open>fromYDB\<close>, an error returned by the
  discovery RPC, and a run-time panic (an explicit \<open>panic\<close>, an index or slice bound out of
  range, a failed type assertion).
\<close>

datatype error = CastError | OptionalNilError | DecodeError | DiscoveryError | Panic

section \<open>Scalars of the Go code\<close>

text \<open>
  Go strings and byte slices are sequences of bytes; both are \<open>string\<close> here, so the
  conversions \<open>[]byte(s)\<close> and \<open>string(b)\<close> are the identity. A \<open>[16]byte\<close> buffer that is
  read and written big-endian is the 128-bit word with the same bits.

  Floating-point numbers are never computed with in the code below, only stored, copied and
  converted. They are symbolic: the bit pattern of a stored number, or the conversion that
  produced it.
\<close>

type_synonym bytes = string

datatype float32 = F32_bits "32 word" | F32_of_int int

datatype float64 = F64_bits "64 word" | F64_of_int int | F64_of_float32 float32

text \<open>
  \<open>time.Time\<close> and \<open>time.Duration\<close> destinations receive the result of
  \<open>DateToTime(v).UTC()\<close>, \<open>DatetimeToTime(v).UTC()\<close>, \<open>TimestampToTime(v).UTC()\<close> and
  \<open>IntervalToDuration(v)\<close>; these helpers live in \<open>time.go\<close>, so their results are
  symbolic too.
\<close>

datatype time = Time_zero | DateToTime_UTC "32 word" | DatetimeToTime_UTC "32 word"
  | TimestampToTime_UTC "64 word"

datatype duration = Duration_zero | IntervalToDuration "64 word"

subsection \<open>Decimal rendering of integers\<close>

text \<open>\<open>strconv.FormatInt(i, 10)\<close>, \<open>strconv.FormatUint(u, 10)\<close> and \<open>big.Int.String()\<close>.\<close>

definition digit_char :: "nat \<Rightarrow> char" where
  "digit_char d = char_of (48 + d)"

function FormatUint :: "nat \<Rightarrow> string" where
  "FormatUint n = (if n < 10 then [digit_char n] else FormatUint (n div 10) @ [digit_char (n mod 10)])"
  by pat_completeness auto
termination
  by (relation "measure id") auto

declare FormatUint.simps [simp del]

definition FormatInt :: "int \<Rightarrow> string" where
  "FormatInt i = (if i < 0 then CHR ''-'' # FormatUint (nat (- i)) else FormatUint (nat i))"

section \<open>Types\<close>

text \<open>
  Modelled from the spec: \<open>type.go\<close> is not among the sources. The shape of each type
  node follows the fields that \<open>value.go\<close> reads (\<open>innerType\<close>, \<open>itemType\<close>, \<open>items\<close>,
  \<open>fields\<close> with \<open>Name\<close> and \<open>T\<close>, \<open>keyType\<close>, \<open>valueType\<close>, \<open>Precision\<close>, \<open>Scale\<close>,
  \<open>variantType\<close>) and the list of primitive types of the data model. The wire description
  of a type (\<open>Ydb.Type\<close>) has the same tree shape, and \<open>TypeFromYDB\<close> is the inverse of
  \<open>Type.toYDB\<close>; a wire type is therefore represented by the type it describes.
\<close>

datatype PrimitiveType = TypeBool | TypeInt8 | TypeInt16 | TypeInt32 | TypeInt64
  | TypeUint8 | TypeUint16 | TypeUint32 | TypeUint64 | TypeFloat | TypeDouble
  | TypeDate | TypeDatetime | TypeTimestamp | TypeInterval | TypeText | TypeBytes
  | TypeUUID | TypeJSON | TypeJSONDocument | TypeYSON | TypeDyNumber
  | TypeTzDate | TypeTzDatetime | TypeTzTimestamp

datatype variantTypeKind = variantTypeTuple | variantTypeStruct

datatype Type = Primitive PrimitiveType
  | optionalType Type
  | listType Type
  | emptyListType
  | TupleType "Type list"
  | StructType "(string \<times> Type) list"
  | dictType Type Type
  | emptyDictType
  | DecimalType "32 word" "32 word"
  | variantType Type variantTypeKind
  | voidType
  | nullType

text \<open>Modelled from the spec: the constructors of \<open>type.go\<close>.\<close>

definition Optional :: "Type \<Rightarrow> Type" where
  "Optional t = optionalType t"

definition List :: "Type \<Rightarrow> Type" where
  "List t = listType t"

definition EmptyList :: Type where
  "EmptyList = emptyListType"

definition Tuple :: "Type list \<Rightarrow> Type" where
  "Tuple ts = TupleType ts"

definition Struct :: "(string \<times> Type) list \<Rightarrow> Type" where
  "Struct fs = StructType fs"

definition Dict :: "Type \<Rightarrow> Type \<Rightarrow> Type" where
  "Dict k v = dictType k v"

text \<open>
  Modelled from the spec: a variant's inner type is a tuple or a struct, and its kind says
  which; any other inner type is a construction error, which aborts.
\<close>

definition Variant :: "Type \<Rightarrow> error + Type" where
  "Variant t = (case t of
       StructType fs \<Rightarrow> Inr (variantType t variantTypeStruct)
     | TupleType ts \<Rightarrow> Inr (variantType t variantTypeTuple)
     | _ \<Rightarrow> Inl Panic)"

section \<open>Wire values\<close>

text \<open>
  \<open>Ydb.Value\<close> is a protobuf message: a one-of field \<open>Value\<close>, the repeated fields
  \<open>Items\<close> and \<open>Pairs\<close>, and the plain fields \<open>VariantIndex\<close> and \<open>High_128\<close>.
  \<open>Value_unset\<close> is the one-of with no case set.
\<close>

datatype 'v Value_oneof = Value_unset
  | Value_BoolValue bool
  | Value_Int32Value "32 word"
  | Value_Uint32Value "32 word"
  | Value_Int64Value "64 word"
  | Value_Uint64Value "64 word"
  | Value_FloatValue float32
  | Value_DoubleValue float64
  | Value_BytesValue bytes
  | Value_TextValue string
  | Value_NullFlagValue
  | Value_NestedValue 'v
  | Value_Low_128 "64 word"

datatype Ydb_Value = Ydb_Value
  (oneof: "Ydb_Value Value_oneof")
  (Items: "Ydb_Value list")
  (Pairs: "(Ydb_Value \<times> Ydb_Value) list")
  (VariantIndex: "32 word")
  (High_128: "64 word")

text \<open>\<open>a.Value()\<close> hands out a zeroed message; \<open>leaf x\<close> is that message with the one-of set.\<close>

definition leaf :: "Ydb_Value Value_oneof \<Rightarrow> Ydb_Value" where
  "leaf x = Ydb_Value x [] [] 0 0"

text \<open>The generated getters return the zero value when another case is set.\<close>

definition GetBoolValue :: "Ydb_Value \<Rightarrow> bool" where
  "GetBoolValue v = (case oneof v of Value_BoolValue b \<Rightarrow> b | _ \<Rightarrow> False)"

definition GetInt32Value :: "Ydb_Value \<Rightarrow> 32 word" where
  "GetInt32Value v = (case oneof v of Value_Int32Value x \<Rightarrow> x | _ \<Rightarrow> 0)"

definition GetUint32Value :: "Ydb_Value \<Rightarrow> 32 word" where
  "GetUint32Value v = (case oneof v of Value_Uint32Value x \<Rightarrow> x | _ \<Rightarrow> 0)"

definition GetInt64Value :: "Ydb_Value \<Rightarrow> 64 word" where
  "GetInt64Value v = (case oneof v of Value_Int64Value x \<Rightarrow> x | _ \<Rightarrow> 0)"

definition GetUint64Value :: "Ydb_Value \<Rightarrow> 64 word" where
  "GetUint64Value v = (case oneof v of Value_Uint64Value x \<Rightarrow> x | _ \<Rightarrow> 0)"

definition GetFloatValue :: "Ydb_Value \<Rightarrow> float32" where
  "GetFloatValue v = (case oneof v of Value_FloatValue x \<Rightarrow> x | _ \<Rightarrow> F32_bits 0)"

definition GetDoubleValue :: "Ydb_Value \<Rightarrow> float64" where
  "GetDoubleValue v = (case oneof v of Value_DoubleValue x \<Rightarrow> x | _ \<Rightarrow> F64_bits 0)"

definition GetTextValue :: "Ydb_Value \<Rightarrow> string" where
  "GetTextValue v = (case oneof v of Value_TextValue x \<Rightarrow> x | _ \<Rightarrow> [])"

definition GetBytesValue :: "Ydb_Value \<Rightarrow> bytes" where
  "GetBytesValue v = (case oneof v of Value_BytesValue x \<Rightarrow> x | _ \<Rightarrow> [])"

definition GetLow_128 :: "Ydb_Value \<Rightarrow> 64 word" where
  "GetLow_128 v = (case oneof v of Value_Low_128 x \<Rightarrow> x | _ \<Rightarrow> 0)"

section \<open>Values\<close>

text \<open>
  One constructor for each implementation of the \<open>Value\<close> interface, with the fields of
  its Go type. The field \<open>innerType\<close> of an \<open>optionalValue\<close> and of a \<open>variantValue\<close> is
  the type of the value itself (what \<open>Type()\<close> returns); the payload of an
  \<open>optionalValue\<close> is \<open>None\<close> where the Go field \<open>value\<close> is \<open>nil\<close>.
\<close>

datatype Value = boolValue bool
  | dateValue "32 word"
  | datetimeValue "32 word"
  | decimalValue "128 word" "32 word" "32 word"
  | dictValue Type "(Value \<times> Value) list"
  | doubleValue float64
  | dyNumberValue string
  | floatValue float32
  | int8Value "8 word"
  | int16Value "16 word"
  | int32Value "32 word"
  | int64Value "64 word"
  | intervalValue "64 word"
  | jsonValue string
  | jsonDocumentValue string
  | listValue Type "Value list"
  | optionalValue Type "Value option"
  | structValue Type "(string \<times> Value) list"
  | timestampValue "64 word"
  | tupleValue Type "Value list"
  | tzDateValue string
  | tzDatetimeValue string
  | tzTimestampValue string
  | uint8Value "8 word"
  | uint16Value "16 word"
  | uint32Value "32 word"
  | uint64Value "64 word"
  | textValue string
  | uuidValue "128 word"
  | variantValue Type Value "32 word"
  | voidValue
  | ysonValue bytes
  | bytesValue bytes

subsection \<open>\<open>Type()\<close>\<close>

fun Type_of :: "Value \<Rightarrow> Type" where
  "Type_of (boolValue _) = Primitive TypeBool"
| "Type_of (dateValue _) = Primitive TypeDate"
| "Type_of (datetimeValue _) = Primitive TypeDatetime"
| "Type_of (decimalValue _ p s) = DecimalType p s"
| "Type_of (dictValue t _) = t"
| "Type_of (doubleValue _) = Primitive TypeDouble"
| "Type_of (dyNumberValue _) = Primitive TypeDyNumber"
| "Type_of (floatValue _) = Primitive TypeFloat"
| "Type_of (int8Value _) = Primitive TypeInt8"
| "Type_of (int16Value _) = Primitive TypeInt16"
| "Type_of (int32Value _) = Primitive TypeInt32"
| "Type_of (int64Value _) = Primitive TypeInt64"
| "Type_of (intervalValue _) = Primitive TypeInterval"
| "Type_of (jsonValue _) = Primitive TypeJSON"
| "Type_of (jsonDocumentValue _) = Primitive TypeJSONDocument"
| "Type_of (listValue t _) = t"
| "Type_of (optionalValue t _) = t"
| "Type_of (structValue t _) = t"
| "Type_of (timestampValue _) = Primitive TypeTimestamp"
| "Type_of (tupleValue t _) = t"
| "Type_of (tzDateValue _) = Primitive TypeTzDate"
| "Type_of (tzDatetimeValue _) = Primitive TypeTzDatetime"
| "Type_of (tzTimestampValue _) = Primitive TypeTzTimestamp"
| "Type_of (uint8Value _) = Primitive TypeUint8"
| "Type_of (uint16Value _) = Primitive TypeUint16"
| "Type_of (uint32Value _) = Primitive TypeUint32"
| "Type_of (uint64Value _) = Primitive TypeUint64"
| "Type_of (textValue _) = Primitive TypeText"
| "Type_of (uuidValue _) = Primitive TypeUUID"
| "Type_of (variantValue t _ _) = t"
| "Type_of voidValue = voidType"
| "Type_of (ysonValue _) = Primitive TypeYSON"
| "Type_of (bytesValue _) = Primitive TypeBytes"

subsection \<open>\<open>toYDB\<close>\<close>

text \<open>
  \<open>binary.BigEndian.Uint64(bytes[0:8])\<close> and \<open>binary.BigEndian.Uint64(bytes[8:16])\<close> are the
  high and the low half of the buffer; \<open>BigEndianUint128\<close> puts two halves together.
\<close>

definition high64 :: "128 word \<Rightarrow> 64 word" where
  "high64 w = ucast (drop_bit 64 w)"

definition low64 :: "128 word \<Rightarrow> 64 word" where
  "low64 w = ucast w"

definition BigEndianUint128 :: "64 word \<Rightarrow> 64 word \<Rightarrow> 128 word" where
  "BigEndianUint128 hi lo = push_bit 64 (ucast hi) OR ucast lo"

text \<open>The type assertion \<open>v.value.(*optionalValue)\<close> of \<open>optionalValue.toYDB\<close>.\<close>

fun is_optionalValue :: "Value \<Rightarrow> bool" where
  "is_optionalValue (optionalValue _ _) = True"
| "is_optionalValue _ = False"

text \<open>
  An optional value with a payload that is not itself optional takes over only the one-of
  field of the payload's message (\<open>vv.Value = v.value.toYDB(a).Value\<close>): the payload's
  \<open>Items\<close>, \<open>Pairs\<close>, \<open>VariantIndex\<close> and \<open>High_128\<close> are not copied.
\<close>

fun toYDB :: "Value \<Rightarrow> Ydb_Value" where
  "toYDB (boolValue b) = leaf (Value_BoolValue b)"
| "toYDB (dateValue v) = leaf (Value_Uint32Value v)"
| "toYDB (datetimeValue v) = leaf (Value_Uint32Value v)"
| "toYDB (decimalValue w p s) = Ydb_Value (Value_Low_128 (low64 w)) [] [] 0 (high64 w)"
| "toYDB (dictValue t values) =
     Ydb_Value Value_unset [] (map (\<lambda>kv. (toYDB (fst kv), toYDB (snd kv))) values) 0 0"
| "toYDB (doubleValue v) = leaf (Value_DoubleValue v)"
| "toYDB (dyNumberValue v) = leaf (Value_TextValue v)"
| "toYDB (floatValue v) = leaf (Value_FloatValue v)"
| "toYDB (int8Value v) = leaf (Value_Int32Value (scast v))"
| "toYDB (int16Value v) = leaf (Value_Int32Value (scast v))"
| "toYDB (int32Value v) = leaf (Value_Int32Value v)"
| "toYDB (int64Value v) = leaf (Value_Int64Value v)"
| "toYDB (intervalValue v) = leaf (Value_Int64Value v)"
| "toYDB (jsonValue v) = leaf (Value_TextValue v)"
| "toYDB (jsonDocumentValue v) = leaf (Value_TextValue v)"
| "toYDB (listValue t items) = Ydb_Value Value_unset (map toYDB items) [] 0 0"
| "toYDB (optionalValue t None) = leaf Value_NullFlagValue"
| "toYDB (optionalValue t (Some v)) =
     (if is_optionalValue v then leaf (Value_NestedValue (toYDB v))
      else leaf (oneof (toYDB v)))"
| "toYDB (structValue t fields) =
     Ydb_Value Value_unset (map (\<lambda>f. toYDB (snd f)) fields) [] 0 0"
| "toYDB (timestampValue v) = leaf (Value_Uint64Value v)"
| "toYDB (tupleValue t items) = Ydb_Value Value_unset (map toYDB items) [] 0 0"
| "toYDB (tzDateValue v) = leaf (Value_TextValue v)"
| "toYDB (tzDatetimeValue v) = leaf (Value_TextValue v)"
| "toYDB (tzTimestampValue v) = leaf (Value_TextValue v)"
| "toYDB (uint8Value v) = leaf (Value_Uint32Value (ucast v))"
| "toYDB (uint16Value v) = leaf (Value_Uint32Value (ucast v))"
| "toYDB (uint32Value v) = leaf (Value_Uint32Value v)"
| "toYDB (uint64Value v) = leaf (Value_Uint64Value v)"
| "toYDB (textValue v) = leaf (Value_TextValue v)"
| "toYDB (uuidValue w) = Ydb_Value (Value_Low_128 (low64 w)) [] [] 0 (high64 w)"
| "toYDB (variantValue t v idx) = Ydb_Value (Value_NestedValue (toYDB v)) [] [] idx 0"
| "toYDB voidValue = leaf Value_NullFlagValue"
| "toYDB (ysonValue v) = leaf (Value_BytesValue v)"
| "toYDB (bytesValue v) = leaf (Value_BytesValue v)"

subsection \<open>Constructors\<close>

definition NullValue :: "Type \<Rightarrow> Value" where
  "NullValue t = optionalValue (Optional t) None"

definition OptionalValue :: "Value \<Rightarrow> Value" where
  "OptionalValue v = optionalValue (Optional (Type_of v)) (Some v)"

definition DecimalValue :: "128 word \<Rightarrow> 32 word \<Rightarrow> 32 word \<Rightarrow> Value" where
  "DecimalValue v precision scale = decimalValue v precision scale"

text \<open>
  \<open>ListValue\<close> takes the type from the first item. Its loop compares the type of each item
  with itself (\<open>v.Type().equalsTo(v.Type())\<close>), which structural equality always grants, so
  the loop never aborts.
\<close>

definition ListValue :: "Value list \<Rightarrow> Value" where
  "ListValue items =
     listValue (case items of [] \<Rightarrow> EmptyList | v # _ \<Rightarrow> List (Type_of v)) items"

definition TupleValue :: "Value list \<Rightarrow> Value" where
  "TupleValue values = tupleValue (Tuple (map Type_of values)) values"

text \<open>
  \<open>sort.Slice(fields, less)\<close> with \<open>less\<close> comparing one key of the elements: the result is
  ordered by the key. Go does not promise the order of elements with equal keys; the model
  keeps them in their input order, as Go's insertion sort does on short slices. Strings are
  compared byte by byte, as Go's \<open><\<close> does.
\<close>

definition sort_Slice :: "('a \<Rightarrow> string) \<Rightarrow> 'a list \<Rightarrow> 'a list" where
  "sort_Slice key xs = sort_key key xs"

definition StructValue :: "(string \<times> Value) list \<Rightarrow> Value" where
  "StructValue fields =
     (let fs = sort_Slice fst fields
      in structValue (Struct (map (\<lambda>f. (fst f, Type_of (snd f))) fs)) fs)"

text \<open>
  \<open>DictValue\<close> orders the pairs by \<open>K.toString()\<close> and reads \<open>values[0]\<close>, which is out of
  range for no pairs. The rendering of a key is the parameter \<open>key_str\<close>: for temporal,
  floating-point and UUID keys it is made by the standard library and by \<open>time.go\<close>.
\<close>

definition DictValue :: "(Value \<Rightarrow> string) \<Rightarrow> (Value \<times> Value) list \<Rightarrow> error + Value" where
  "DictValue key_str values =
     (case sort_Slice (\<lambda>kv. key_str (fst kv)) values of
        [] \<Rightarrow> Inl Panic
      | kv # rest \<Rightarrow> Inr (dictValue (Dict (Type_of (fst kv)) (Type_of (snd kv))) (kv # rest)))"

definition VariantValue :: "Value \<Rightarrow> 32 word \<Rightarrow> Type \<Rightarrow> error + Value" where
  "VariantValue v idx t =
     (case Variant t of Inl e \<Rightarrow> Inl e | Inr vt \<Rightarrow> Inr (variantValue vt v idx))"

definition VariantValueStruct :: "Value \<Rightarrow> 32 word \<Rightarrow> error + Value" where
  "VariantValueStruct v idx =
     (case v of
        structValue _ _ \<Rightarrow> Inr (variantValue (variantType (Type_of v) variantTypeStruct) v idx)
      | _ \<Rightarrow> Inl Panic)"

definition VariantValueTuple :: "Value \<Rightarrow> 32 word \<Rightarrow> error + Value" where
  "VariantValueTuple v idx =
     (case v of
        tupleValue _ _ \<Rightarrow> Inr (variantValue (variantType (Type_of v) variantTypeTuple) v idx)
      | _ \<Rightarrow> Inl Panic)"

definition VoidValue :: Value where
  "VoidValue = voidValue"

subsection \<open>\<open>FromYDB\<close>\<close>

text \<open>
  The loop of \<open>nullValueFromYDB\<close> walks down the chain of \<open>NestedValue\<close> nodes; the type
  it consults at the end of the chain is the type it was called with.
\<close>

fun nullValueFromYDB :: "Ydb_Value \<Rightarrow> Type \<Rightarrow> Value option" where
  "nullValueFromYDB (Ydb_Value (Value_NestedValue x) _ _ _ _) t = nullValueFromYDB x t"
| "nullValueFromYDB (Ydb_Value Value_NullFlagValue _ _ _ _) t =
     (case t of
        optionalType inner \<Rightarrow> Some (NullValue inner)
      | voidType \<Rightarrow> Some VoidValue
      | _ \<Rightarrow> None)"
| "nullValueFromYDB _ t = None"

fun primitiveValueFromYDB :: "PrimitiveType \<Rightarrow> Ydb_Value \<Rightarrow> error + Value" where
  "primitiveValueFromYDB TypeBool v = Inr (boolValue (GetBoolValue v))"
| "primitiveValueFromYDB TypeInt8 v = Inr (int8Value (ucast (GetInt32Value v)))"
| "primitiveValueFromYDB TypeInt16 v = Inr (int16Value (ucast (GetInt32Value v)))"
| "primitiveValueFromYDB TypeInt32 v = Inr (int32Value (GetInt32Value v))"
| "primitiveValueFromYDB TypeInt64 v = Inr (int64Value (GetInt64Value v))"
| "primitiveValueFromYDB TypeUint8 v = Inr (uint8Value (ucast (GetUint32Value v)))"
| "primitiveValueFromYDB TypeUint16 v = Inr (uint16Value (ucast (GetUint32Value v)))"
| "primitiveValueFromYDB TypeUint32 v = Inr (uint32Value (GetUint32Value v))"
| "primitiveValueFromYDB TypeUint64 v = Inr (uint64Value (GetUint64Value v))"
| "primitiveValueFromYDB TypeDate v = Inr (dateValue (GetUint32Value v))"
| "primitiveValueFromYDB TypeDatetime v = Inr (datetimeValue (GetUint32Value v))"
| "primitiveValueFromYDB TypeInterval v = Inr (intervalValue (GetInt64Value v))"
| "primitiveValueFromYDB TypeTimestamp v = Inr (timestampValue (GetUint64Value v))"
| "primitiveValueFromYDB TypeFloat v = Inr (floatValue (GetFloatValue v))"
| "primitiveValueFromYDB TypeDouble v = Inr (doubleValue (GetDoubleValue v))"
| "primitiveValueFromYDB TypeText v = Inr (textValue (GetTextValue v))"
| "primitiveValueFromYDB TypeYSON v =
     (case oneof v of
        Value_TextValue s \<Rightarrow> Inr (ysonValue s)
      | Value_BytesValue b \<Rightarrow> Inr (ysonValue b)
      | _ \<Rightarrow> Inl DecodeError)"
| "primitiveValueFromYDB TypeJSON v = Inr (jsonValue (GetTextValue v))"
| "primitiveValueFromYDB TypeJSONDocument v = Inr (jsonDocumentValue (GetTextValue v))"
| "primitiveValueFromYDB TypeDyNumber v = Inr (dyNumberValue (GetTextValue v))"
| "primitiveValueFromYDB TypeTzDate v = Inr (tzDateValue (GetTextValue v))"
| "primitiveValueFromYDB TypeTzDatetime v = Inr (tzDatetimeValue (GetTextValue v))"
| "primitiveValueFromYDB TypeTzTimestamp v = Inr (tzTimestampValue (GetTextValue v))"
| "primitiveValueFromYDB TypeBytes v = Inr (bytesValue (GetBytesValue v))"
| "primitiveValueFromYDB TypeUUID v = Inr (uuidValue (BigEndianUint128 (High_128 v) (GetLow_128 v)))"

text \<open>
  \<open>FromYDB\<close> is \<open>fromYDB\<close> with every returned error turned into a panic; \<open>fromYDB\<close>
  decodes the parts of a value with \<open>FromYDB\<close>. \<open>must\<close> is that step.
\<close>

fun must :: "error + 'a \<Rightarrow> error + 'a" where
  "must (Inl e) = Inl Panic"
| "must (Inr x) = Inr x"

type_synonym decoder = "Ydb_Value \<Rightarrow> error + Value"

text \<open>The loop of the list case: every item is decoded against the item type.\<close>

fun decode_items :: "decoder \<Rightarrow> Ydb_Value list \<Rightarrow> error + Value list" where
  "decode_items f [] = Inr []"
| "decode_items f (w # ws) =
     (case must (f w) of
        Inl e \<Rightarrow> Inl e
      | Inr x \<Rightarrow> (case decode_items f ws of Inl e \<Rightarrow> Inl e | Inr xs \<Rightarrow> Inr (x # xs)))"

text \<open>
  The loop of the tuple case: item \<open>i\<close> is decoded against \<open>ttt.items[i]\<close>, which is out of
  range when the message has more items than the type.
\<close>

fun decode_tuple :: "decoder list \<Rightarrow> Ydb_Value list \<Rightarrow> error + Value list" where
  "decode_tuple fs [] = Inr []"
| "decode_tuple [] (w # ws) = Inl Panic"
| "decode_tuple (f # fs) (w # ws) =
     (case must (f w) of
        Inl e \<Rightarrow> Inl e
      | Inr x \<Rightarrow> (case decode_tuple fs ws of Inl e \<Rightarrow> Inl e | Inr xs \<Rightarrow> Inr (x # xs)))"

text \<open>The loop of the struct case: item \<open>i\<close> gets the name and the type of \<open>ttt.fields[i]\<close>.\<close>

fun decode_fields :: "(string \<times> decoder) list \<Rightarrow> Ydb_Value list \<Rightarrow> error + (string \<times> Value) list" where
  "decode_fields fs [] = Inr []"
| "decode_fields [] (w # ws) = Inl Panic"
| "decode_fields (f # fs) (w # ws) =
     (case must (snd f w) of
        Inl e \<Rightarrow> Inl e
      | Inr x \<Rightarrow> (case decode_fields fs ws of Inl e \<Rightarrow> Inl e | Inr xs \<Rightarrow> Inr ((fst f, x) # xs)))"

fun decode_pairs :: "decoder \<Rightarrow> decoder \<Rightarrow> (Ydb_Value \<times> Ydb_Value) list \<Rightarrow> error + (Value \<times> Value) list" where
  "decode_pairs fk fv [] = Inr []"
| "decode_pairs fk fv (p # ps) =
     (case must (fk (fst p)) of
        Inl e \<Rightarrow> Inl e
      | Inr k \<Rightarrow> (case must (fv (snd p)) of
          Inl e \<Rightarrow> Inl e
        | Inr v \<Rightarrow> (case decode_pairs fk fv ps of Inl e \<Rightarrow> Inl e | Inr xs \<Rightarrow> Inr ((k, v) # xs))))"

text \<open>
  \<open>or_null v t d\<close> is the first step of \<open>fromYDB\<close>: the result of \<open>nullValueFromYDB\<close> when it
  has one, and the decoding \<open>d\<close> by the type otherwise.
\<close>

definition or_null :: "Ydb_Value \<Rightarrow> Type \<Rightarrow> error + Value \<Rightarrow> error + Value" where
  "or_null v t d = (case nullValueFromYDB v t of Some vv \<Rightarrow> Inr vv | None \<Rightarrow> d)"

definition decode_variant :: "Type \<Rightarrow> variantTypeKind \<Rightarrow> decoder \<Rightarrow> decoder" where
  "decode_variant inner kind f v =
     (case kind of
        variantTypeTuple \<Rightarrow>
          (case inner of
             TupleType _ \<Rightarrow>
               (case oneof v of
                  Value_NestedValue n \<Rightarrow>
                    (case must (f n) of Inl e \<Rightarrow> Inl e | Inr x \<Rightarrow> VariantValueTuple x (VariantIndex v))
                | _ \<Rightarrow> Inl Panic)
           | _ \<Rightarrow> Inl Panic)
      | variantTypeStruct \<Rightarrow>
          (case inner of
             StructType _ \<Rightarrow>
               (case oneof v of
                  Value_NestedValue n \<Rightarrow>
                    (case must (f n) of Inl e \<Rightarrow> Inl e | Inr x \<Rightarrow> VariantValueStruct x (VariantIndex v))
                | _ \<Rightarrow> Inl Panic)
           | _ \<Rightarrow> Inl Panic))"

definition decode_optional :: "decoder \<Rightarrow> decoder" where
  "decode_optional f v =
     (case oneof v of
        Value_NestedValue n \<Rightarrow> (case must (f n) of Inl e \<Rightarrow> Inl e | Inr x \<Rightarrow> Inr (OptionalValue x))
      | _ \<Rightarrow> (case must (f v) of Inl e \<Rightarrow> Inl e | Inr x \<Rightarrow> Inr (OptionalValue x)))"

primrec fromYDB :: "(Value \<Rightarrow> string) \<Rightarrow> Type \<Rightarrow> decoder" where
  "fromYDB ks (Primitive p) = (\<lambda>v. or_null v (Primitive p) (primitiveValueFromYDB p v))"
| "fromYDB ks voidType = (\<lambda>v. or_null v voidType (Inr VoidValue))"
| "fromYDB ks nullType = (\<lambda>v. or_null v nullType (Inr (NullValue nullType)))"
| "fromYDB ks (DecimalType p s) = (\<lambda>v. or_null v (DecimalType p s)
     (Inr (DecimalValue (BigEndianUint128 (High_128 v) (GetLow_128 v)) p s)))"
| "fromYDB ks (optionalType inner) = (\<lambda>v. or_null v (optionalType inner)
     (decode_optional (fromYDB ks inner) v))"
| "fromYDB ks (listType it) = (\<lambda>v. or_null v (listType it)
     (case decode_items (fromYDB ks it) (Items v) of
        Inl e \<Rightarrow> Inl e | Inr xs \<Rightarrow> Inr (ListValue xs)))"
| "fromYDB ks (TupleType ts) = (\<lambda>v. or_null v (TupleType ts)
     (case decode_tuple (map (fromYDB ks) ts) (Items v) of
        Inl e \<Rightarrow> Inl e | Inr xs \<Rightarrow> Inr (TupleValue xs)))"
| "fromYDB ks (StructType fs) = (\<lambda>v. or_null v (StructType fs)
     (case decode_fields (map (map_prod id (fromYDB ks)) fs) (Items v) of
        Inl e \<Rightarrow> Inl e | Inr xs \<Rightarrow> Inr (StructValue xs)))"
| "fromYDB ks (dictType kt vt) = (\<lambda>v. or_null v (dictType kt vt)
     (case decode_pairs (fromYDB ks kt) (fromYDB ks vt) (Pairs v) of
        Inl e \<Rightarrow> Inl e | Inr xs \<Rightarrow> DictValue ks xs))"
| "fromYDB ks (variantType inner kind) = (\<lambda>v. or_null v (variantType inner kind)
     (decode_variant inner kind (fromYDB ks inner) v))"
| "fromYDB ks emptyListType = (\<lambda>v. or_null v emptyListType (Inl DecodeError))"
| "fromYDB ks emptyDictType = (\<lambda>v. or_null v emptyDictType (Inl DecodeError))"

definition FromYDB :: "(Value \<Rightarrow> string) \<Rightarrow> Type \<Rightarrow> decoder" where
  "FromYDB ks t v = must (fromYDB ks t v)"

subsection \<open>\<open>ZeroValue\<close>\<close>

fun zeroPrimitiveValue :: "PrimitiveType \<Rightarrow> Value" where
  "zeroPrimitiveValue TypeBool = boolValue False"
| "zeroPrimitiveValue TypeInt8 = int8Value 0"
| "zeroPrimitiveValue TypeUint8 = uint8Value 0"
| "zeroPrimitiveValue TypeInt16 = int16Value 0"
| "zeroPrimitiveValue TypeUint16 = uint16Value 0"
| "zeroPrimitiveValue TypeInt32 = int32Value 0"
| "zeroPrimitiveValue TypeUint32 = uint32Value 0"
| "zeroPrimitiveValue TypeInt64 = int64Value 0"
| "zeroPrimitiveValue TypeUint64 = uint64Value 0"
| "zeroPrimitiveValue TypeFloat = floatValue (F32_bits 0)"
| "zeroPrimitiveValue TypeDouble = doubleValue (F64_bits 0)"
| "zeroPrimitiveValue TypeDate = dateValue 0"
| "zeroPrimitiveValue TypeDatetime = datetimeValue 0"
| "zeroPrimitiveValue TypeTimestamp = timestampValue 0"
| "zeroPrimitiveValue TypeInterval = intervalValue 0"
| "zeroPrimitiveValue TypeText = textValue []"
| "zeroPrimitiveValue TypeYSON = ysonValue []"
| "zeroPrimitiveValue TypeJSON = jsonValue []"
| "zeroPrimitiveValue TypeJSONDocument = jsonDocumentValue []"
| "zeroPrimitiveValue TypeDyNumber = dyNumberValue []"
| "zeroPrimitiveValue TypeTzDate = tzDateValue []"
| "zeroPrimitiveValue TypeTzDatetime = tzDatetimeValue []"
| "zeroPrimitiveValue TypeTzTimestamp = tzTimestampValue []"
| "zeroPrimitiveValue TypeBytes = bytesValue []"
| "zeroPrimitiveValue TypeUUID = uuidValue 0"

text \<open>The results of a loop whose body may abort: the first failure, or all the results.\<close>

fun collect :: "(error + 'a) list \<Rightarrow> error + 'a list" where
  "collect [] = Inr []"
| "collect (r # rs) =
     (case r of
        Inl e \<Rightarrow> Inl e
      | Inr x \<Rightarrow> (case collect rs of Inl e \<Rightarrow> Inl e | Inr xs \<Rightarrow> Inr (x # xs)))"

fun collect_fields :: "(string \<times> (error + 'a)) list \<Rightarrow> error + (string \<times> 'a) list" where
  "collect_fields [] = Inr []"
| "collect_fields (f # fs) =
     (case snd f of
        Inl e \<Rightarrow> Inl e
      | Inr x \<Rightarrow> (case collect_fields fs of Inl e \<Rightarrow> Inl e | Inr xs \<Rightarrow> Inr ((fst f, x) # xs)))"

text \<open>
  The type switch of \<open>ZeroValue\<close> has the cases \<open>PrimitiveType\<close>, \<open>*optionalType\<close>,
  \<open>*voidType\<close>, \<open>*listType\<close>, \<open>*TupleType\<close>, \<open>*StructType\<close>, \<open>*dictType\<close>, \<open>*DecimalType\<close>
  and \<open>*variantType\<close>, and aborts in its default case. The void type is the struct value
  \<open>voidType{}\<close> (\<open>_voidValueType = voidType{}\<close>; \<open>nullValueFromYDB\<close> and \<open>fromYDB\<close> match it
  as \<open>case voidType\<close>), which the pointer case \<open>*voidType\<close> does not match: the void type
  reaches the default case, as the null type and the empty list and dict types do.
\<close>

primrec ZeroValue :: "Type \<Rightarrow> error + Value" where
  "ZeroValue (Primitive p) = Inr (zeroPrimitiveValue p)"
| "ZeroValue (optionalType inner) = Inr (NullValue inner)"
| "ZeroValue voidType = Inl Panic"
| "ZeroValue (listType it) = Inr (listValue (listType it) [])"
| "ZeroValue (TupleType ts) =
     (case collect (map ZeroValue ts) of
        Inl e \<Rightarrow> Inl e
      | Inr items \<Rightarrow> Inr (tupleValue (TupleType ts) items))"
| "ZeroValue (StructType fs) =
     (case collect_fields (map (map_prod id ZeroValue) fs) of
        Inl e \<Rightarrow> Inl e
      | Inr fields \<Rightarrow> Inr (StructValue fields))"
| "ZeroValue (dictType kt vt) = Inr (dictValue (dictType kt vt) [])"
| "ZeroValue (DecimalType p s) = Inr (DecimalValue 0 22 9)"
| "ZeroValue (variantType inner kind) =
     (case ZeroValue inner of
        Inl e \<Rightarrow> Inl e
      | Inr z \<Rightarrow> VariantValue z 0 inner)"
| "ZeroValue emptyListType = Inl Panic"
| "ZeroValue emptyDictType = Inl Panic"
| "ZeroValue nullType = Inl Panic"

subsection \<open>\<open>castTo\<close>\<close>

text \<open>
  The destination of a cast is a pointer; \<open>castTo\<close> switches on its type and stores through
  it. A destination is modelled by its type together with what it currently holds, and
  \<open>castTo\<close> returns the error (if any) and what the destination holds afterwards.
  \<open>DstOther\<close> is a destination of any type that no case names.

  A text stored in a string or byte-slice destination is a string, or the rendering
  \<open>strconv.FormatFloat(x, 'f', -1, bits)\<close> of a floating-point number.
\<close>

datatype rendered = Str string | FormatFloat float64 nat

datatype dst = DstBool bool
  | DstString rendered
  | DstBytes rendered
  | DstInt8 "8 word"
  | DstInt16 "16 word"
  | DstInt32 "32 word"
  | DstInt64 "64 word"
  | DstUint8 "8 word"
  | DstUint16 "16 word"
  | DstUint32 "32 word"
  | DstUint64 "64 word"
  | DstFloat32 float32
  | DstFloat64 float64
  | DstTime time
  | DstDuration duration
  | DstByte16 "128 word"
  | DstOther

definition FormatBool :: "bool \<Rightarrow> string" where
  "FormatBool b = (if b then ''true'' else ''false'')"

text \<open>The sixteen bytes of a buffer, first byte first.\<close>

definition bytes16 :: "128 word \<Rightarrow> string" where
  "bytes16 w = map (\<lambda>i. char_of (unat (drop_bit (8 * (15 - i)) w))) [0..<16]"

definition refuse :: "dst \<Rightarrow> error option \<times> dst" where
  "refuse d = (Some CastError, d)"

definition stored :: "dst \<Rightarrow> error option \<times> dst" where
  "stored d = (None, d)"

text \<open>The destinations that every string-like value accepts.\<close>

definition castTo_text :: "string \<Rightarrow> dst \<Rightarrow> error option \<times> dst" where
  "castTo_text s d = (case d of
       DstString _ \<Rightarrow> stored (DstString (Str s))
     | DstBytes _ \<Rightarrow> stored (DstBytes (Str s))
     | _ \<Rightarrow> refuse d)"

fun castTo :: "Value \<Rightarrow> dst \<Rightarrow> error option \<times> dst" where
  "castTo (boolValue v) d = (case d of
       DstBool _ \<Rightarrow> stored (DstBool v)
     | DstString _ \<Rightarrow> stored (DstString (Str (FormatBool v)))
     | _ \<Rightarrow> refuse d)"
| "castTo (dateValue v) d = (case d of
       DstTime _ \<Rightarrow> stored (DstTime (DateToTime_UTC v))
     | DstUint64 _ \<Rightarrow> stored (DstUint64 (ucast v))
     | DstInt64 _ \<Rightarrow> stored (DstInt64 (ucast v))
     | DstInt32 _ \<Rightarrow> stored (DstInt32 v)
     | _ \<Rightarrow> refuse d)"
| "castTo (datetimeValue v) d = (case d of
       DstTime _ \<Rightarrow> stored (DstTime (DatetimeToTime_UTC v))
     | DstUint64 _ \<Rightarrow> stored (DstUint64 (ucast v))
     | DstInt64 _ \<Rightarrow> stored (DstInt64 (ucast v))
     | DstUint32 _ \<Rightarrow> stored (DstUint32 v)
     | _ \<Rightarrow> refuse d)"
| "castTo (decimalValue w p s) d = refuse d"
| "castTo (dictValue t values) d = refuse d"
| "castTo (doubleValue v) d = (case d of
       DstString _ \<Rightarrow> stored (DstString (FormatFloat v 64))
     | DstBytes _ \<Rightarrow> stored (DstBytes (FormatFloat v 64))
     | DstFloat64 _ \<Rightarrow> stored (DstFloat64 v)
     | _ \<Rightarrow> refuse d)"
| "castTo (dyNumberValue v) d = castTo_text v d"
| "castTo (floatValue v) d = (case d of
       DstString _ \<Rightarrow> stored (DstString (FormatFloat (F64_of_float32 v) 32))
     | DstBytes _ \<Rightarrow> stored (DstBytes (FormatFloat (F64_of_float32 v) 32))
     | DstFloat64 _ \<Rightarrow> stored (DstFloat64 (F64_of_float32 v))
     | DstFloat32 _ \<Rightarrow> stored (DstFloat32 v)
     | _ \<Rightarrow> refuse d)"
| "castTo (int8Value v) d = (case d of
       DstString _ \<Rightarrow> stored (DstString (Str (FormatInt (sint v))))
     | DstBytes _ \<Rightarrow> stored (DstBytes (Str (FormatInt (sint v))))
     | DstInt64 _ \<Rightarrow> stored (DstInt64 (scast v))
     | DstInt32 _ \<Rightarrow> stored (DstInt32 (scast v))
     | DstInt16 _ \<Rightarrow> stored (DstInt16 (scast v))
     | DstInt8 _ \<Rightarrow> stored (DstInt8 v)
     | DstFloat64 _ \<Rightarrow> stored (DstFloat64 (F64_of_int (sint v)))
     | DstFloat32 _ \<Rightarrow> stored (DstFloat32 (F32_of_int (sint v)))
     | _ \<Rightarrow> refuse d)"
| "castTo (int16Value v) d = (case d of
       DstString _ \<Rightarrow> stored (DstString (Str (FormatInt (sint v))))
     | DstBytes _ \<Rightarrow> stored (DstBytes (Str (FormatInt (sint v))))
     | DstInt64 _ \<Rightarrow> stored (DstInt64 (scast v))
     | DstInt32 _ \<Rightarrow> stored (DstInt32 (scast v))
     | DstInt16 _ \<Rightarrow> stored (DstInt16 v)
     | DstFloat64 _ \<Rightarrow> stored (DstFloat64 (F64_of_int (sint v)))
     | DstFloat32 _ \<Rightarrow> stored (DstFloat32 (F32_of_int (sint v)))
     | _ \<Rightarrow> refuse d)"
| "castTo (int32Value v) d = (case d of
       DstString _ \<Rightarrow> stored (DstString (Str (FormatInt (sint v))))
     | DstBytes _ \<Rightarrow> stored (DstBytes (Str (FormatInt (sint v))))
     | DstInt64 _ \<Rightarrow> stored (DstInt64 (scast v))
     | DstInt32 _ \<Rightarrow> stored (DstInt32 v)
     | DstFloat64 _ \<Rightarrow> stored (DstFloat64 (F64_of_int (sint v)))
     | DstFloat32 _ \<Rightarrow> stored (DstFloat32 (F32_of_int (sint v)))
     | _ \<Rightarrow> refuse d)"
| "castTo (int64Value v) d = (case d of
       DstString _ \<Rightarrow> stored (DstString (Str (FormatInt (sint v))))
     | DstBytes _ \<Rightarrow> stored (DstBytes (Str (FormatInt (sint v))))
     | DstInt64 _ \<Rightarrow> stored (DstInt64 v)
     | DstFloat64 _ \<Rightarrow> stored (DstFloat64 (F64_of_int (sint v)))
     | _ \<Rightarrow> refuse d)"
| "castTo (intervalValue v) d = (case d of
       DstDuration _ \<Rightarrow> stored (DstDuration (IntervalToDuration v))
     | DstInt64 _ \<Rightarrow> stored (DstInt64 v)
     | _ \<Rightarrow> refuse d)"
| "castTo (jsonValue v) d = castTo_text v d"
| "castTo (jsonDocumentValue v) d = castTo_text v d"
| "castTo (listValue t items) d = refuse d"
| "castTo (optionalValue t None) d = (Some OptionalNilError, d)"
| "castTo (optionalValue t (Some v)) d = castTo v d"
| "castTo (structValue t fields) d = refuse d"
| "castTo (timestampValue v) d = (case d of
       DstTime _ \<Rightarrow> stored (DstTime (TimestampToTime_UTC v))
     | DstUint64 _ \<Rightarrow> stored (DstUint64 v)
     | _ \<Rightarrow> refuse d)"
| "castTo (tupleValue t [item]) d = castTo item d"
| "castTo (tupleValue t items) d = refuse d"
| "castTo (tzDateValue v) d = castTo_text v d"
| "castTo (tzDatetimeValue v) d = castTo_text v d"
| "castTo (tzTimestampValue v) d = castTo_text v d"
| "castTo (uint8Value v) d = (case d of
       DstString _ \<Rightarrow> stored (DstString (Str (FormatInt (uint v))))
     | DstBytes _ \<Rightarrow> stored (DstBytes (Str (FormatInt (uint v))))
     | DstUint64 _ \<Rightarrow> stored (DstUint64 (ucast v))
     | DstInt64 _ \<Rightarrow> stored (DstInt64 (ucast v))
     | DstUint32 _ \<Rightarrow> stored (DstUint32 (ucast v))
     | DstInt32 _ \<Rightarrow> stored (DstInt32 (ucast v))
     | DstUint16 _ \<Rightarrow> stored (DstUint16 (ucast v))
     | DstInt16 _ \<Rightarrow> stored (DstInt16 (ucast v))
     | DstUint8 _ \<Rightarrow> stored (DstUint8 v)
     | DstFloat64 _ \<Rightarrow> stored (DstFloat64 (F64_of_int (uint v)))
     | DstFloat32 _ \<Rightarrow> stored (DstFloat32 (F32_of_int (uint v)))
     | _ \<Rightarrow> refuse d)"
| "castTo (uint16Value v) d = (case d of
       DstString _ \<Rightarrow> stored (DstString (Str (FormatInt (uint v))))
     | DstBytes _ \<Rightarrow> stored (DstBytes (Str (FormatInt (uint v))))
     | DstUint64 _ \<Rightarrow> stored (DstUint64 (ucast v))
     | DstInt64 _ \<Rightarrow> stored (DstInt64 (ucast v))
     | DstUint32 _ \<Rightarrow> stored (DstUint32 (ucast v))
     | DstInt32 _ \<Rightarrow> stored (DstInt32 (ucast v))
     | DstUint16 _ \<Rightarrow> stored (DstUint16 v)
     | DstFloat32 _ \<Rightarrow> stored (DstFloat32 (F32_of_int (uint v)))
     | DstFloat64 _ \<Rightarrow> stored (DstFloat64 (F64_of_int (uint v)))
     | _ \<Rightarrow> refuse d)"
| "castTo (uint32Value v) d = (case d of
       DstString _ \<Rightarrow> stored (DstString (Str (FormatInt (uint v))))
     | DstBytes _ \<Rightarrow> stored (DstBytes (Str (FormatInt (uint v))))
     | DstUint64 _ \<Rightarrow> stored (DstUint64 (ucast v))
     | DstInt64 _ \<Rightarrow> stored (DstInt64 (ucast v))
     | DstUint32 _ \<Rightarrow> stored (DstUint32 v)
     | DstFloat64 _ \<Rightarrow> stored (DstFloat64 (F64_of_int (uint v)))
     | _ \<Rightarrow> refuse d)"
| "castTo (uint64Value v) d = (case d of
       DstString _ \<Rightarrow> stored (DstString (Str (FormatInt (sint v))))
     | DstBytes _ \<Rightarrow> stored (DstBytes (Str (FormatInt (sint v))))
     | DstUint64 _ \<Rightarrow> stored (DstUint64 v)
     | _ \<Rightarrow> refuse d)"
| "castTo (textValue v) d = castTo_text v d"
| "castTo (uuidValue w) d = (case d of
       DstString _ \<Rightarrow> stored (DstString (Str (bytes16 w)))
     | DstBytes _ \<Rightarrow> stored (DstBytes (Str (bytes16 w)))
     | DstByte16 _ \<Rightarrow> stored (DstByte16 w)
     | _ \<Rightarrow> refuse d)"
| "castTo (variantValue t v idx) d = castTo v d"
| "castTo voidValue d = refuse d"
| "castTo (ysonValue v) d = castTo_text v d"
| "castTo (bytesValue v) d = castTo_text v d"

subsection \<open>\<open>decimalValue.toString\<close>\<close>

text \<open>
  Modelled from the spec: the package \<open>decimal\<close> is not among the sources.
  \<open>decimal.FromBytes\<close> is the inverse of the two's-complement big-endian 128-bit encoding:
  it reads the buffer as a signed integer.
\<close>

definition FromBytes :: "128 word \<Rightarrow> 32 word \<Rightarrow> 32 word \<Rightarrow> int" where
  "FromBytes b precision scale = sint b"

text \<open>
  \<open>s[:len(s)-scale] + "." + s[len(s)-scale:]\<close>: a slice bound below zero is a run-time
  panic in Go.
\<close>

definition insert_point :: "string \<Rightarrow> 32 word \<Rightarrow> error + string" where
  "insert_point s scale =
     (let n = int (length s) - uint scale
      in if n < 0 then Inl Panic
         else Inr (take (nat n) s @ ''.'' @ drop (nat n) s))"

definition decimalValue_toString :: "128 word \<Rightarrow> 32 word \<Rightarrow> 32 word \<Rightarrow> error + string" where
  "decimalValue_toString b precision scale =
     insert_point (FormatInt (FromBytes b precision scale)) scale"

section \<open>Discovery\<close>

record Endpoint =
  Addr :: string
  Port :: int
  LoadFactor :: float32
  Local :: bool

text \<open>The messages \<open>Ydb_Discovery.EndpointInfo\<close> and \<open>Ydb_Discovery.ListEndpointsResult\<close>.\<close>

record EndpointInfo =
  info_Address :: string
  info_Port :: "32 word"
  info_LoadFactor :: float32
  info_Ssl :: bool
  info_Location :: string

record ListEndpointsResult =
  Endpoints :: "EndpointInfo list"
  SelfLocation :: string

record discoveryClient =
  database :: string
  ssl :: bool

text \<open>
  The loop of \<open>Discover\<close> over the endpoints of the response. The composite literal names
  \<open>Addr\<close>, \<open>Port\<close> and \<open>Local\<close>; the field \<open>LoadFactor\<close> keeps its zero value.
\<close>

fun endpoints_of :: "bool \<Rightarrow> string \<Rightarrow> EndpointInfo list \<Rightarrow> Endpoint list" where
  "endpoints_of s self [] = []"
| "endpoints_of s self (e # es) =
     (if info_Ssl e = s
      then \<lparr>Addr = info_Address e, Port = uint (info_Port e), LoadFactor = F32_bits 0,
            Local = (info_Location e = self)\<rparr> # endpoints_of s self es
      else endpoints_of s self es)"

text \<open>
  \<open>rpc\<close> is the call of \<open>ListEndpoints\<close> followed by \<open>proto.Unmarshal\<close>: for a database
  name, an error or the decoded result.
\<close>

definition Discover :: "(string \<Rightarrow> error + ListEndpointsResult) \<Rightarrow> discoveryClient \<Rightarrow> error + Endpoint list" where
  "Discover rpc d =
     (case rpc (database d) of
        Inl e \<Rightarrow> Inl e
      | Inr r \<Rightarrow> Inr (endpoints_of (ssl d) (SelfLocation r) (Endpoints r)))"

section \<open>Classes of types and values\<close>

text \<open>
  The types at which \<open>ZeroValue\<close> returns a value of the requested type: no void, null,
  empty-list or empty-dict type (for which it aborts) outside an optional, list or dict
  type, no decimal type other than \<open>Decimal(22,9)\<close>, struct fields in ascending order of
  their names, and variants whose kind is the kind of their inner type.
\<close>

fun zero_typed :: "Type \<Rightarrow> bool" where
  "zero_typed (Primitive p) = True"
| "zero_typed (optionalType inner) = True"
| "zero_typed (listType it) = True"
| "zero_typed (dictType kt vt) = True"
| "zero_typed (DecimalType p s) = (p = 22 \<and> s = 9)"
| "zero_typed (TupleType ts) = list_all zero_typed ts"
| "zero_typed (StructType fs) = (sorted (map fst fs) \<and> list_all (\<lambda>f. zero_typed (snd f)) fs)"
| "zero_typed (variantType inner kind) = (zero_typed inner \<and> Variant inner = Inr (variantType inner kind))"
| "zero_typed voidType = False"
| "zero_typed nullType = False"
| "zero_typed emptyListType = False"
| "zero_typed emptyDictType = False"


text \<open>
  The values that \<open>FromYDB\<close> gives back from their encoding. \<open>plain_scalar\<close> are the values
  whose message is the one-of field alone; \<open>holds_payload\<close> says that a chain of nested
  optional values ends in a payload and not in NULL. A value of the class carries the type
  that its constructor computes; the payload of an optional value is a plain scalar, or an
  optional value that holds a payload; a list or a dict is not empty and its items are of
  one type; the fields of a struct and the pairs of a dict are in ascending order of their
  names and of their rendered keys; a variant is over a tuple or a struct.
\<close>

fun plain_scalar :: "Value \<Rightarrow> bool" where
  "plain_scalar (decimalValue _ _ _) = False"
| "plain_scalar (dictValue _ _) = False"
| "plain_scalar (listValue _ _) = False"
| "plain_scalar (optionalValue _ _) = False"
| "plain_scalar (structValue _ _) = False"
| "plain_scalar (tupleValue _ _) = False"
| "plain_scalar (uuidValue _) = False"
| "plain_scalar (variantValue _ _ _) = False"
| "plain_scalar voidValue = False"
| "plain_scalar _ = True"

fun holds_payload :: "Value \<Rightarrow> bool" where
  "holds_payload (optionalValue _ None) = False"
| "holds_payload (optionalValue _ (Some v)) = holds_payload v"
| "holds_payload voidValue = False"
| "holds_payload _ = True"

fun round_trips :: "(Value \<Rightarrow> string) \<Rightarrow> Value \<Rightarrow> bool" where
  "round_trips ks (optionalValue t None) = (case t of optionalType _ \<Rightarrow> True | _ \<Rightarrow> False)"
| "round_trips ks (optionalValue t (Some v)) =
     (t = Optional (Type_of v) \<and> round_trips ks v
      \<and> (if is_optionalValue v then holds_payload v else plain_scalar v))"
| "round_trips ks (listValue t items) =
     (case items of
        [] \<Rightarrow> False
      | x # _ \<Rightarrow> t = List (Type_of x)
          \<and> list_all (\<lambda>y. round_trips ks y \<and> Type_of y = Type_of x) items)"
| "round_trips ks (tupleValue t items) =
     (t = Tuple (map Type_of items) \<and> list_all (round_trips ks) items)"
| "round_trips ks (structValue t fs) =
     (t = Struct (map (\<lambda>f. (fst f, Type_of (snd f))) fs)
      \<and> sorted (map fst fs) \<and> list_all (\<lambda>f. round_trips ks (snd f)) fs)"
| "round_trips ks (dictValue t values) =
     (case values of
        [] \<Rightarrow> False
      | kv # _ \<Rightarrow> t = Dict (Type_of (fst kv)) (Type_of (snd kv))
          \<and> sorted (map (\<lambda>p. ks (fst p)) values)
          \<and> list_all (\<lambda>p. round_trips ks (fst p) \<and> Type_of (fst p) = Type_of (fst kv)
                          \<and> round_trips ks (snd p) \<and> Type_of (snd p) = Type_of (snd kv)) values)"
| "round_trips ks (variantValue t v idx) =
     (round_trips ks v
      \<and> (case v of
            tupleValue _ _ \<Rightarrow> t = variantType (Type_of v) variantTypeTuple
          | structValue _ _ \<Rightarrow> t = variantType (Type_of v) variantTypeStruct
          | _ \<Rightarrow> False))"
| "round_trips ks _ = True"


text \<open>A rendering of keys for examples without dict values, where it plays no part.\<close>

definition no_key_str :: "Value \<Rightarrow> string" where
  "no_key_str v = []"

section \<open>The balancer\<close>

subsection \<open>The test table and the checks of the two balancer tests\<close>

text \<open>
  One row of \<open>testData\<close>: the endpoints added with their load factors, the addresses
  removed, the addresses pessimized, the number of calls of \<open>Next()\<close> and the expected
  number of times each address is returned. The field \<open>name\<close> is never set. Load factors
  are the decimal fractions the table writes.
\<close>

record testCase =
  tc_add :: "(string \<times> rat) list"
  tc_del :: "string list"
  tc_banned :: "string list"
  tc_repeat :: nat
  tc_exp :: "(string \<times> nat) list"
  tc_err :: bool

definition case_equal :: testCase where
  "case_equal = \<lparr>tc_add = [(''foo'', 0), (''bar'', 0)], tc_del = [], tc_banned = [],
     tc_repeat = 1000, tc_exp = [(''foo'', 500), (''bar'', 500)], tc_err = False\<rparr>"

definition case_light_foo :: testCase where
  "case_light_foo = \<lparr>tc_add = [(''foo'', 2 / 10), (''bar'', 1), (''baz'', 1)], tc_del = [],
     tc_banned = [], tc_repeat = 1000,
     tc_exp = [(''foo'', 600), (''bar'', 200), (''baz'', 200)], tc_err = False\<rparr>"

definition case_light_bar :: testCase where
  "case_light_bar = \<lparr>tc_add = [(''foo'', 1), (''bar'', 1 / 10), (''baz'', 9 / 10)], tc_del = [],
     tc_banned = [], tc_repeat = 1000,
     tc_exp = [(''foo'', 200), (''bar'', 600), (''baz'', 200)], tc_err = False\<rparr>"

definition case_del_light :: testCase where
  "case_del_light = \<lparr>tc_add = [(''foo'', 25 / 100), (''bar'', 1), (''baz'', 1)],
     tc_del = [''foo''], tc_banned = [], tc_repeat = 1000,
     tc_exp = [(''bar'', 500), (''baz'', 500)], tc_err = False\<rparr>"

definition case_del_heavy :: testCase where
  "case_del_heavy = \<lparr>tc_add = [(''foo'', 1), (''bar'', 25 / 100), (''baz'', 25 / 100)],
     tc_del = [''foo''], tc_banned = [], tc_repeat = 1000,
     tc_exp = [(''bar'', 500), (''baz'', 500)], tc_err = False\<rparr>"

definition case_del_middle :: testCase where
  "case_del_middle = \<lparr>tc_add = [(''foo'', 1), (''bar'', 75 / 100), (''baz'', 25 / 100)],
     tc_del = [''bar''], tc_banned = [], tc_repeat = 1200,
     tc_exp = [(''foo'', 400), (''baz'', 800)], tc_err = False\<rparr>"

definition case_del_zero :: testCase where
  "case_del_zero = \<lparr>tc_add = [(''foo'', 0), (''bar'', 0), (''baz'', 0)],
     tc_del = [''baz''], tc_banned = [], tc_repeat = 1000,
     tc_exp = [(''foo'', 500), (''bar'', 500)], tc_err = False\<rparr>"

definition case_del_all :: testCase where
  "case_del_all = \<lparr>tc_add = [(''foo'', 0), (''bar'', 0), (''baz'', 0)],
     tc_del = [''foo'', ''bar'', ''baz''], tc_banned = [], tc_repeat = 1,
     tc_exp = [], tc_err = True\<rparr>"

definition case_banned_two :: testCase where
  "case_banned_two = \<lparr>tc_add = [(''foo'', 0), (''bar'', 0), (''baz'', 0)], tc_del = [],
     tc_banned = [''foo'', ''bar''], tc_repeat = 100,
     tc_exp = [(''baz'', 100)], tc_err = True\<rparr>"

definition case_banned_one :: testCase where
  "case_banned_one = \<lparr>tc_add = [(''foo'', 0), (''bar'', 0), (''baz'', 0)], tc_del = [],
     tc_banned = [''foo''], tc_repeat = 100,
     tc_exp = [(''bar'', 50), (''baz'', 50)], tc_err = True\<rparr>"

definition case_banned_all_equal :: testCase where
  "case_banned_all_equal = \<lparr>tc_add = [(''foo'', 0), (''bar'', 0), (''baz'', 0)], tc_del = [],
     tc_banned = [''foo'', ''bar'', ''baz''], tc_repeat = 150,
     tc_exp = [(''foo'', 50), (''bar'', 50), (''baz'', 50)], tc_err = True\<rparr>"

definition case_banned_all_loaded :: testCase where
  "case_banned_all_loaded = \<lparr>tc_add = [(''foo'', 10), (''bar'', 20), (''baz'', 30)], tc_del = [],
     tc_banned = [''foo'', ''bar'', ''baz''], tc_repeat = 150,
     tc_exp = [(''foo'', 75), (''bar'', 50), (''baz'', 25)], tc_err = True\<rparr>"

definition case_banned_one_loaded :: testCase where
  "case_banned_one_loaded = \<lparr>tc_add = [(''foo'', 10), (''bar'', 20), (''baz'', 30)], tc_del = [],
     tc_banned = [''foo''], tc_repeat = 150,
     tc_exp = [(''foo'', 0), (''bar'', 100), (''baz'', 50)], tc_err = True\<rparr>"

definition testData :: "testCase list" where
  "testData = [case_equal, case_light_foo, case_light_bar, case_del_light, case_del_heavy,
     case_del_middle, case_del_zero, case_del_all, case_banned_two, case_banned_one,
     case_banned_all_equal, case_banned_all_loaded, case_banned_one_loaded]"

text \<open>
  Both tests call \<open>Next()\<close> \<open>repeat\<close> times. What the loop leaves behind is the number of
  calls that returned \<open>nil\<close> and the map \<open>mdist\<close> from each returned address to the number of
  times it was returned; the checks that follow read only these. A \<open>nil\<close> result is fatal
  when more endpoints were added than removed. \<open>mdist[addr]\<close> of an absent address is 0.
\<close>

definition noConn_ok :: "testCase \<Rightarrow> nat \<Rightarrow> bool" where
  "noConn_ok tc nils = (nils = 0 \<or> length (tc_add tc) \<le> length (tc_del tc))"

definition act_of :: "(string \<times> nat) list \<Rightarrow> string \<Rightarrow> nat" where
  "act_of mdist addr = (case map_of mdist addr of None \<Rightarrow> 0 | Some n \<Rightarrow> n)"

text \<open>The last loop of both tests: an address left in \<open>mdist\<close> that the row does not expect.\<close>

definition leftover_ok :: "testCase \<Rightarrow> (string \<times> nat) list \<Rightarrow> bool" where
  "leftover_ok tc mdist = list_all (\<lambda>p. map_of (tc_exp tc) (fst p) \<noteq> None) mdist"

definition TestRoundRobinBalancer_passes :: "testCase \<Rightarrow> nat \<Rightarrow> (string \<times> nat) list \<Rightarrow> bool" where
  "TestRoundRobinBalancer_passes tc nils mdist =
     (noConn_ok tc nils
      \<and> list_all (\<lambda>p. act_of mdist (fst p) = snd p) (tc_exp tc)
      \<and> leftover_ok tc mdist)"

text \<open>
  \<open>int(float64(exp)*0.9)\<close> and \<open>int(float64(exp)*1.1)\<close>, with the product taken exactly.
\<close>

definition tolerance_low :: "nat \<Rightarrow> int" where
  "tolerance_low e = \<lfloor>(of_nat e :: rat) * (9 / 10)\<rfloor>"

definition tolerance_high :: "nat \<Rightarrow> int" where
  "tolerance_high e = \<lfloor>(of_nat e :: rat) * (11 / 10)\<rfloor>"

definition within_tolerance :: "nat \<Rightarrow> rat \<Rightarrow> bool" where
  "within_tolerance e x = (of_int (tolerance_low e) \<le> x \<and> x \<le> of_int (tolerance_high e))"

definition TestRandomChoiceBalancer_passes :: "testCase \<Rightarrow> nat \<Rightarrow> (string \<times> nat) list \<Rightarrow> bool" where
  "TestRandomChoiceBalancer_passes tc nils mdist =
     (noConn_ok tc nils
      \<and> list_all (\<lambda>p. within_tolerance (snd p) (of_nat (act_of mdist (fst p)))) (tc_exp tc)
      \<and> leftover_ok tc mdist)"

subsection \<open>The selector\<close>

text \<open>
  Modelled from the spec: the balancer itself is not among the sources, only its tests are.
  An element has a connection (named by its address), a load factor and a state, Online
  after \<open>Insert\<close> and Banned after \<open>Pessimize\<close>. The weight of an element is
  \<open>1 / max(load_factor, \<epsilon>)\<close>, and the expected share of element \<open>i\<close> is its weight over the
  sum of the weights.
\<close>

record element =
  el_addr :: string
  el_load :: rat
  el_banned :: bool

definition weight :: "rat \<Rightarrow> rat \<Rightarrow> rat" where
  "weight eps L = 1 / max L eps"



text \<open>
  Modelled from the spec: a weighted random choice. The draw \<open>x\<close> is a number from 0 up to
  the sum of the weights; the choice is the first element at which the running sum of the
  weights exceeds the draw (the last element, should none do).
\<close>

fun pick :: "(rat \<times> 'a) list \<Rightarrow> rat \<Rightarrow> 'a option" where
  "pick [] x = None"
| "pick [wa] x = Some (snd wa)"
| "pick (wa # rest) x = (if x < fst wa then Some (snd wa) else pick rest (x - fst wa))"

text \<open>
  Modelled from the spec: \<open>Next()\<close> chooses among the Online elements by their weights; when
  no element is Online it chooses among the Banned ones; it returns \<open>nil\<close> when there is no
  element. \<open>u\<close> is the random number of the call, from 0 up to 1. The weights of the two
  choices are the parameters \<open>w\<close> and \<open>wb\<close>; the spec has \<open>weight \<epsilon>\<close> for the Online
  elements and a uniform choice among the Banned ones.
\<close>

definition weighted_choice :: "(rat \<Rightarrow> rat) \<Rightarrow> element list \<Rightarrow> rat \<Rightarrow> element option" where
  "weighted_choice w es u =
     pick (map (\<lambda>e. (w (el_load e), e)) es) (u * sum_list (map (\<lambda>e. w (el_load e)) es))"

definition Next :: "(rat \<Rightarrow> rat) \<Rightarrow> (rat \<Rightarrow> rat) \<Rightarrow> element list \<Rightarrow> rat \<Rightarrow> element option" where
  "Next w wb es u =
     (let online = filter (\<lambda>e. \<not> el_banned e) es
      in if online = [] then weighted_choice wb es u else weighted_choice w online u)"

definition Next_spec :: "rat \<Rightarrow> element list \<Rightarrow> rat \<Rightarrow> element option" where
  "Next_spec eps es u = Next (weight eps) (\<lambda>L. 1) es u"


text \<open>
  The number of the \<open>n\<close> evenly spread random numbers \<open>0/n, 1/n, \<dots>, (n-1)/n\<close> at which a
  selector returns the element of address \<open>a\<close>.
\<close>

definition draw_counts :: "(rat \<Rightarrow> element option) \<Rightarrow> nat \<Rightarrow> string \<Rightarrow> nat" where
  "draw_counts sel n a =
     length (filter (\<lambda>k. map_option el_addr (sel (of_nat k / of_nat n)) = Some a) [0..<n])"

text \<open>The elements of a row of the test table after its insertions and pessimizations.\<close>

definition elements_of :: "testCase \<Rightarrow> element list" where
  "elements_of tc =
     map (\<lambda>p. \<lparr>el_addr = fst p, el_load = snd p, el_banned = (fst p \<in> set (tc_banned tc))\<rparr>)
       (filter (\<lambda>p. fst p \<notin> set (tc_del tc)) (tc_add tc))"

section \<open>Properties of the value model\<close>

subsection \<open>Casting\<close>

lemma int8Value_castTo_matrix:
  "fst (castTo (int8Value v) d) =
     (case d of
        DstString _ \<Rightarrow> None | DstBytes _ \<Rightarrow> None
      | DstInt8 _ \<Rightarrow> None | DstInt16 _ \<Rightarrow> None | DstInt32 _ \<Rightarrow> None | DstInt64 _ \<Rightarrow> None
      | DstFloat32 _ \<Rightarrow> None | DstFloat64 _ \<Rightarrow> None
      | _ \<Rightarrow> Some CastError)"
  by (cases d) (simp_all add: stored_def refuse_def)

lemma int16Value_castTo_int8_refused:
  "castTo (int16Value v) (DstInt8 x) = (Some CastError, DstInt8 x)"
  by (simp add: refuse_def)

lemma dateValue_castTo_matrix:
  "fst (castTo (dateValue v) d) =
     (case d of
        DstTime _ \<Rightarrow> None | DstUint64 _ \<Rightarrow> None | DstInt64 _ \<Rightarrow> None | DstInt32 _ \<Rightarrow> None
      | _ \<Rightarrow> Some CastError)"
  by (cases d) (simp_all add: stored_def refuse_def)

text \<open>
  Claim C5. A date value accepts a timestamp destination and the integer type it is stored
  in, \<open>uint32\<close>. In the code the cases of \<open>dateValue.castTo\<close> are \<open>*time.Time\<close>,
  \<open>*uint64\<close>, \<open>*int64\<close> and \<open>*int32\<close>: a \<open>*uint32\<close> destination is refused with the cast
  error and left as it was, while \<open>datetimeValue.castTo\<close>, over the same stored type,
  accepts it.
\<close>

theorem dateValue_castTo_uint32_refused:
  "castTo (dateValue 1) (DstUint32 0) = (Some CastError, DstUint32 0)
   \<and> castTo (datetimeValue 1) (DstUint32 0) = (None, DstUint32 1)"
  by (simp add: stored_def refuse_def)

text \<open>
  Claim C8. The cast of an optional value with a payload is the cast of the payload; the
  cast of an optional value without a payload returns the error of the nil optional and
  leaves the destination as it was.
\<close>

theorem optionalValue_castTo:
  "castTo (optionalValue t (Some v)) d = castTo v d
   \<and> castTo (optionalValue t None) d = (Some OptionalNilError, d)"
  by simp

subsection \<open>Encoding of optional values\<close>

text \<open>
  The null of \<open>Optional<Optional<Int32>>\<close> itself, which has no payload at all, is
  encoded as the null of \<open>Optional<Int32>\<close> is: a \<open>NullFlag\<close> on its own.
\<close>

lemma NullValue_outer_encoding:
  "Type_of (NullValue (Optional (Primitive TypeInt32))) = Optional (Optional (Primitive TypeInt32))
   \<and> Type_of (NullValue (Primitive TypeInt32)) = Optional (Primitive TypeInt32)
   \<and> toYDB (NullValue (Optional (Primitive TypeInt32))) = toYDB (NullValue (Primitive TypeInt32))"
  by (simp add: NullValue_def)

text \<open>
  Claim C2. An optional value whose payload is itself optional is encoded as a
  \<open>NestedValue\<close> node around the encoding of the payload; an optional value without a
  payload is encoded as a \<open>NullFlag\<close>; so the value of type \<open>Optional<Optional<Int32>>\<close>
  that holds the null of \<open>Optional<Int32>\<close> is encoded as a \<open>NestedValue\<close> around a
  \<open>NullFlag\<close>, which differs from the encoding of the null of \<open>Optional<Int32>\<close>.
\<close>

theorem optionalValue_toYDB_nesting:
  "toYDB (optionalValue t (Some (optionalValue t' p)))
     = leaf (Value_NestedValue (toYDB (optionalValue t' p)))
   \<and> toYDB (optionalValue t None) = leaf Value_NullFlagValue
   \<and> toYDB (OptionalValue (NullValue (Primitive TypeInt32)))
     = leaf (Value_NestedValue (leaf Value_NullFlagValue))
   \<and> toYDB (NullValue (Primitive TypeInt32)) = leaf Value_NullFlagValue
   \<and> toYDB (OptionalValue (NullValue (Primitive TypeInt32))) \<noteq> toYDB (NullValue (Primitive TypeInt32))"
  by (simp add: OptionalValue_def NullValue_def leaf_def)

subsection \<open>Rendering of decimals\<close>

lemma digit_char_0: "digit_char 0 = CHR ''0''"
  by code_simp

lemma FormatInt_0: "FormatInt 0 = ''0''"
  by (simp add: FormatInt_def FormatUint.simps digit_char_0)

lemma insert_point_short:
  "int (length s) < uint scale \<Longrightarrow> insert_point s scale = Inl Panic"
  unfolding insert_point_def Let_def by simp

lemma insert_point_ok:
  assumes "uint scale \<le> int (length s)"
  shows "\<exists>front back. insert_point s scale = Inr (front @ ''.'' @ back)
     \<and> front @ back = s \<and> length back = unat scale"
proof -
  define k where "k = length s - unat scale"
  have u: "int (unat scale) = uint scale" by simp
  have le: "unat scale \<le> length s" using u assms by linarith
  have n: "int (length s) - uint scale = int k"
    using u le unfolding k_def by linarith
  have "insert_point s scale = Inr (take k s @ ''.'' @ drop k s)"
    unfolding insert_point_def Let_def n by simp
  moreover have "length (drop k s) = unat scale"
    using le by (simp add: k_def)
  ultimately show ?thesis by (metis append_take_drop_id)
qed

lemma insert_point_0_9: "insert_point ''0'' 9 = Inl Panic"
  by (rule insert_point_short) simp

text \<open>
  Claim C9. The zero of \<open>Decimal(22,9)\<close> renders as \<open>0.000000000\<close>. In the code the digit
  string of zero is \<open>0\<close>, of length 1, and the slice bound \<open>len(s) - scale\<close> is \<open>-8\<close>: the
  rendering aborts.
\<close>

theorem decimalValue_toString_zero_panics:
  "FormatInt (FromBytes 0 22 9) = ''0'' \<and> decimalValue_toString 0 22 9 = Inl Panic"
  by (simp add: decimalValue_toString_def FromBytes_def FormatInt_0 insert_point_0_9)

subsection \<open>Structs\<close>

lemma sort_Slice_perm:
  assumes "mset ys = mset xs" and "distinct (map key xs)"
  shows "sort_Slice key ys = sort_Slice key xs"
proof -
  have "set ys = set xs" using assms(1) by (rule mset_eq_setD)
  moreover have "inj_on key (set xs)" using assms(2) by (simp add: distinct_map)
  ultimately have i: "inj_on key (set ys)" by simp
  have m: "mset ys = mset (sort_key key xs)" using assms(1) by simp
  have s: "sorted (map key (sort_key key xs))" by simp
  have "sort_key key ys = sort_key key xs" by (rule sort_key_inj_key_eq[OF m i s])
  then show ?thesis by (simp add: sort_Slice_def)
qed

lemma sort_Slice_sorted: "sorted (map key (sort_Slice key xs))"
  by (simp add: sort_Slice_def)

lemma sort_Slice_mset: "mset (sort_Slice key xs) = mset xs"
  by (simp add: sort_Slice_def)

lemma sort_Slice_example:
  "sort_Slice fst [(''b'', textValue ''y''), (''a'', int32Value 1)]
     = [(''a'', int32Value 1), (''b'', textValue ''y'')]"
  by (simp add: sort_Slice_def)

text \<open>
  Claim C6. \<open>StructValue\<close> orders the fields by name: for fields with pairwise distinct
  names, every permutation of the fields gives the same struct value, whose fields are in
  ascending order of their names, and the same items of the encoding. The struct of
  \<open>b: Text "y"\<close> and \<open>a: Int32 1\<close> has the type \<open>Struct<a:Int32,b:Text>\<close> and the items
  \<open>int32_value: 1\<close>, \<open>text_value: "y"\<close>.
\<close>

theorem StructValue_canonical:
  assumes "mset gs = mset fs" and "distinct (map fst fs)"
  shows "StructValue gs = StructValue fs
    \<and> (\<exists>hs. StructValue fs = structValue (Struct (map (\<lambda>f. (fst f, Type_of (snd f))) hs)) hs
          \<and> sorted (map fst hs) \<and> mset hs = mset fs)
    \<and> Items (toYDB (StructValue gs)) = Items (toYDB (StructValue fs))
    \<and> StructValue [(''b'', textValue ''y''), (''a'', int32Value 1)]
        = structValue (StructType [(''a'', Primitive TypeInt32), (''b'', Primitive TypeText)])
            [(''a'', int32Value 1), (''b'', textValue ''y'')]
    \<and> Items (toYDB (StructValue [(''b'', textValue ''y''), (''a'', int32Value 1)]))
        = [leaf (Value_Int32Value 1), leaf (Value_TextValue ''y'')]"
proof -
  have eq: "StructValue gs = StructValue fs"
    using sort_Slice_perm[OF assms] by (simp add: StructValue_def)
  have shape: "\<exists>hs. StructValue fs = structValue (Struct (map (\<lambda>f. (fst f, Type_of (snd f))) hs)) hs
          \<and> sorted (map fst hs) \<and> mset hs = mset fs"
    unfolding StructValue_def Let_def
    using sort_Slice_sorted[of fst fs] sort_Slice_mset[of fst fs] by blast
  have ex: "StructValue [(''b'', textValue ''y''), (''a'', int32Value 1)]
        = structValue (StructType [(''a'', Primitive TypeInt32), (''b'', Primitive TypeText)])
            [(''a'', int32Value 1), (''b'', textValue ''y'')]"
    by (simp add: StructValue_def Let_def sort_Slice_example Struct_def)
  have exi: "Items (toYDB (StructValue [(''b'', textValue ''y''), (''a'', int32Value 1)]))
        = [leaf (Value_Int32Value 1), leaf (Value_TextValue ''y'')]"
    unfolding ex by simp
  from eq shape ex exi show ?thesis by simp
qed

theorem StructValue_canonical_witness:
  "mset [(''b'', textValue ''y''), (''a'', int32Value 1)] = mset [(''a'', int32Value 1), (''b'', textValue ''y'')]
   \<and> distinct (map fst [(''a'', int32Value 1), (''b'', textValue ''y'')])
   \<and> StructValue [(''b'', textValue ''y''), (''a'', int32Value 1)]
       = StructValue [(''a'', int32Value 1), (''b'', textValue ''y'')]"
proof -
  have p: "mset [(''b'', textValue ''y''), (''a'', int32Value 1)] = mset [(''a'', int32Value 1), (''b'', textValue ''y'')]"
    by simp
  have d: "distinct (map fst [(''a'', int32Value 1), (''b'', textValue ''y'')])"
    by simp
  from StructValue_canonical[OF p d] p d show ?thesis by blast
qed


subsection \<open>Zero values\<close>

lemma map_prod_id_alt: "map_prod id f = (\<lambda>p. (fst p, f (snd p)))"
  by (auto simp: fun_eq_iff)

lemma collect_zero:
  "(\<And>t. t \<in> set ts \<Longrightarrow> \<exists>v. f t = Inr v \<and> Type_of v = t) \<Longrightarrow>
   \<exists>vs. collect (map f ts) = Inr vs \<and> map Type_of vs = ts"
proof (induction ts)
  case Nil
  then show ?case by simp
next
  case (Cons t ts)
  obtain v where v: "f t = Inr v" "Type_of v = t" using Cons.prems by auto
  obtain vs where vs: "collect (map f ts) = Inr vs" "map Type_of vs = ts"
    using Cons by auto
  show ?case using v vs by simp
qed

lemma collect_fields_zero:
  "\<forall>p\<in>set fs. \<exists>v. f (snd p) = Inr v \<and> Type_of v = snd p \<Longrightarrow>
   \<exists>vs. collect_fields (map (\<lambda>p. (fst p, f (snd p))) fs) = Inr vs
      \<and> map (\<lambda>x. (fst x, Type_of (snd x))) vs = fs"
proof (induction fs)
  case Nil
  then show ?case by simp
next
  case (Cons a fs)
  obtain v where v: "f (snd a) = Inr v" "Type_of v = snd a" using Cons.prems by auto
  have "\<forall>p\<in>set fs. \<exists>v. f (snd p) = Inr v \<and> Type_of v = snd p" using Cons.prems by simp
  then obtain vs where vs: "collect_fields (map (\<lambda>p. (fst p, f (snd p))) fs) = Inr vs"
      "map (\<lambda>x. (fst x, Type_of (snd x))) vs = fs"
    using Cons.IH by blast
  show ?case using v vs by simp
qed

lemma ZeroValue_typed:
  "zero_typed t \<Longrightarrow> \<exists>v. ZeroValue t = Inr v \<and> Type_of v = t"
proof (induction t)
  case (TupleType ts)
  have "\<And>t. t \<in> set ts \<Longrightarrow> \<exists>v. ZeroValue t = Inr v \<and> Type_of v = t"
    using TupleType by (simp add: list_all_iff)
  from collect_zero[OF this] obtain vs where "collect (map ZeroValue ts) = Inr vs" by blast
  then show ?case by simp
next
  case (StructType fs)
  have "\<forall>p\<in>set fs. \<exists>v. ZeroValue (snd p) = Inr v \<and> Type_of v = snd p"
  proof
    fix p assume m: "p \<in> set fs"
    then have "zero_typed (snd p)" using StructType.prems by (auto simp: list_all_iff)
    moreover have "snd p \<in> Basic_BNFs.snds p" by (cases p) simp
    ultimately show "\<exists>v. ZeroValue (snd p) = Inr v \<and> Type_of v = snd p"
      using StructType.IH m by blast
  qed
  from collect_fields_zero[OF this] obtain vs where
    vs: "collect_fields (map (map_prod id ZeroValue) fs) = Inr vs"
        "map (\<lambda>x. (fst x, Type_of (snd x))) vs = fs"
    unfolding map_prod_id_alt by blast
  have "map fst vs = map fst fs" using vs(2) by (metis (no_types, lifting) map_map comp_def fst_conv map_eq_conv)
  then have "sorted (map fst vs)" using StructType.prems by simp
  then have "sort_Slice fst vs = vs" by (simp add: sort_Slice_def sort_key_id_if_sorted)
  then show ?case using vs by (simp add: StructValue_def Struct_def)
next
  case (variantType inner kind)
  then obtain z where "ZeroValue inner = Inr z" by auto
  then show ?case using variantType.prems by (simp add: VariantValue_def)
qed (simp_all add: NullValue_def Optional_def DecimalValue_def, (case_tac x, simp_all)?)


text \<open>
  Claim C10, as stated, at the type \<open>Decimal(10,2)\<close>: the zero value is of type
  \<open>Decimal(22,9)\<close>.
\<close>

theorem ZeroValue_Decimal_counterexample:
  "ZeroValue (DecimalType 10 2) = Inr (decimalValue 0 22 9)
   \<and> Type_of (decimalValue 0 22 9) \<noteq> DecimalType 10 2"
  by (simp add: DecimalValue_def)

text \<open>
  Claim C10, amended. \<open>ZeroValue\<close> returns a value of the requested type for every type
  built from primitive, optional, list and dict types and \<open>Decimal(22,9)\<close> by tuples,
  by structs whose fields are declared in ascending order of their names, and by variants
  over such a tuple or struct. The zero value of every \<open>Decimal(p,s)\<close> is the zero of
  \<open>Decimal(22,9)\<close>.
\<close>

theorem ZeroValue_preserves_type:
  assumes "zero_typed t"
  shows "(\<exists>v. ZeroValue t = Inr v \<and> Type_of v = t)
    \<and> ZeroValue (DecimalType p s) = Inr (DecimalValue 0 22 9)
    \<and> Type_of (DecimalValue 0 22 9) = DecimalType 22 9"
  using ZeroValue_typed[OF assms] by (simp add: DecimalValue_def)

theorem ZeroValue_preserves_type_witness:
  "zero_typed (StructType
       [(''a'', TupleType [Primitive TypeInt32, DecimalType 22 9]),
        (''b'', variantType (TupleType [optionalType (Primitive TypeText)]) variantTypeTuple)])
   \<and> (\<exists>v. ZeroValue (StructType
       [(''a'', TupleType [Primitive TypeInt32, DecimalType 22 9]),
        (''b'', variantType (TupleType [optionalType (Primitive TypeText)]) variantTypeTuple)]) = Inr v
      \<and> Type_of v = StructType
       [(''a'', TupleType [Primitive TypeInt32, DecimalType 22 9]),
        (''b'', variantType (TupleType [optionalType (Primitive TypeText)]) variantTypeTuple)])"
proof -
  have z: "zero_typed (StructType
       [(''a'', TupleType [Primitive TypeInt32, DecimalType 22 9]),
        (''b'', variantType (TupleType [optionalType (Primitive TypeText)]) variantTypeTuple)])"
    by (simp add: Variant_def)
  from ZeroValue_preserves_type[OF z] z show ?thesis by blast
qed


subsection \<open>Decoding an encoding\<close>

lemma ucast_scast_8_32: "ucast (scast (v :: 8 word) :: 32 word) = v"
  by (rule bit_word_eqI) (auto simp add: bit_simps)

lemma ucast_scast_16_32: "ucast (scast (v :: 16 word) :: 32 word) = v"
  by (rule bit_word_eqI) (auto simp add: bit_simps)

lemma ucast_ucast_8_32: "ucast (ucast (v :: 8 word) :: 32 word) = v"
  by (rule bit_word_eqI) (auto simp add: bit_simps)

lemma ucast_ucast_16_32: "ucast (ucast (v :: 16 word) :: 32 word) = v"
  by (rule bit_word_eqI) (auto simp add: bit_simps)

lemma BigEndianUint128_halves: "BigEndianUint128 (high64 w) (low64 w) = w"
  unfolding BigEndianUint128_def high64_def low64_def
  by (rule bit_word_eqI) (auto simp add: bit_simps)

lemma plain_scalar_leaf: "plain_scalar p \<Longrightarrow> leaf (oneof (toYDB p)) = toYDB p"
  by (cases p) (simp_all add: leaf_def)

lemma plain_scalar_not_null: "plain_scalar p \<Longrightarrow> nullValueFromYDB (toYDB p) t = None"
  by (cases p) (simp_all add: leaf_def)

lemma plain_scalar_decode_optional:
  "plain_scalar p \<Longrightarrow> f (toYDB p) = Inr x \<Longrightarrow> decode_optional f (toYDB p) = Inr (OptionalValue x)"
  by (cases p) (simp_all add: leaf_def decode_optional_def)

lemma holds_payload_not_null:
  "round_trips ks v \<Longrightarrow> holds_payload v \<Longrightarrow> nullValueFromYDB (toYDB v) t = None"
proof (induction v)
  case (optionalValue t' ov)
  then obtain p where ov: "ov = Some p" by (cases ov) auto
  show ?case
  proof (cases "is_optionalValue p")
    case True
    then have "nullValueFromYDB (toYDB p) t = None"
      using optionalValue ov by simp
    then show ?thesis using True ov by (simp add: leaf_def)
  next
    case False
    then have "plain_scalar p" using optionalValue.prems ov by simp
    then show ?thesis using False ov
      by (simp add: plain_scalar_leaf plain_scalar_not_null)
  qed
next
  case (variantValue t' v idx)
  then show ?case by (cases v) simp_all
qed (simp_all add: leaf_def)

lemma decode_items_map:
  "\<forall>x\<in>set xs. f (toYDB x) = Inr x \<Longrightarrow> decode_items f (map toYDB xs) = Inr xs"
  by (induction xs) simp_all

lemma decode_tuple_map:
  "\<forall>x\<in>set xs. g (Type_of x) (toYDB x) = Inr x \<Longrightarrow>
   decode_tuple (map g (map Type_of xs)) (map toYDB xs) = Inr xs"
  by (induction xs) simp_all

lemma decode_fields_map:
  "\<forall>p\<in>set fs. g (Type_of (snd p)) (toYDB (snd p)) = Inr (snd p) \<Longrightarrow>
   decode_fields (map (\<lambda>p. (fst p, g (snd p))) (map (\<lambda>f. (fst f, Type_of (snd f))) fs))
     (map (\<lambda>f. toYDB (snd f)) fs) = Inr fs"
  by (induction fs) simp_all

lemma decode_pairs_map:
  "\<forall>p\<in>set ps. fk (toYDB (fst p)) = Inr (fst p) \<and> fv (toYDB (snd p)) = Inr (snd p) \<Longrightarrow>
   decode_pairs fk fv (map (\<lambda>kv. (toYDB (fst kv), toYDB (snd kv))) ps) = Inr ps"
  by (induction ps) simp_all

lemma fromYDB_toYDB:
  "round_trips ks v \<Longrightarrow> fromYDB ks (Type_of v) (toYDB v) = Inr v"
proof (induction v)
  case (decimalValue w p s)
  show ?case
    by (simp add: or_null_def DecimalValue_def GetLow_128_def BigEndianUint128_halves)
next
  case (uuidValue w)
  show ?case
    by (simp add: or_null_def GetLow_128_def BigEndianUint128_halves)
next
  case (optionalValue t ov)
  show ?case
  proof (cases ov)
    case None
    then obtain inner where "t = optionalType inner"
      using optionalValue.prems by (cases t) simp_all
    then show ?thesis using None
      by (simp add: or_null_def leaf_def NullValue_def Optional_def)
  next
    case (Some p)
    have t: "t = optionalType (Type_of p)" and rp: "round_trips ks p"
      using optionalValue.prems Some by (simp_all add: Optional_def)
    have ih: "fromYDB ks (Type_of p) (toYDB p) = Inr p"
      using optionalValue.IH Some rp by simp
    show ?thesis
    proof (cases "is_optionalValue p")
      case True
      then have "holds_payload p" using optionalValue.prems Some by simp
      then have "nullValueFromYDB (toYDB p) t = None"
        using rp by (rule holds_payload_not_null[rotated])
      then show ?thesis using True Some t ih
        by (simp add: or_null_def leaf_def decode_optional_def OptionalValue_def Optional_def)
    next
      case False
      then have pl: "plain_scalar p" using optionalValue.prems Some by simp
      have "decode_optional (fromYDB ks (Type_of p)) (toYDB p) = Inr (OptionalValue p)"
        using pl ih by (rule plain_scalar_decode_optional)
      then show ?thesis using False Some t pl
        by (simp add: or_null_def plain_scalar_leaf plain_scalar_not_null
            OptionalValue_def Optional_def)
    qed
  qed
next
  case (listValue t items)
  then obtain x rest where items: "items = x # rest" by (cases items) auto
  have t: "t = listType (Type_of x)"
    using listValue.prems items by (simp add: List_def)
  have "\<forall>y\<in>set items. fromYDB ks (Type_of x) (toYDB y) = Inr y"
  proof
    fix y assume y: "y \<in> set items"
    then have "round_trips ks y \<and> Type_of y = Type_of x"
      using listValue.prems items by (auto simp: list_all_iff)
    then show "fromYDB ks (Type_of x) (toYDB y) = Inr y"
      using listValue.IH[OF y] by metis
  qed
  then have "decode_items (fromYDB ks (Type_of x)) (map toYDB items) = Inr items"
    by (rule decode_items_map)
  then show ?case using t items
    by (simp add: or_null_def ListValue_def List_def)
next
  case (tupleValue t items)
  have t: "t = TupleType (map Type_of items)"
    using tupleValue.prems by (simp add: Tuple_def)
  have "\<forall>y\<in>set items. fromYDB ks (Type_of y) (toYDB y) = Inr y"
    using tupleValue by (auto simp: list_all_iff)
  then have "decode_tuple (map (fromYDB ks) (map Type_of items)) (map toYDB items) = Inr items"
    by (rule decode_tuple_map)
  then show ?case using t
    by (simp add: or_null_def TupleValue_def Tuple_def)
next
  case (structValue t fs)
  have t: "t = StructType (map (\<lambda>f. (fst f, Type_of (snd f))) fs)"
    and srt: "sorted (map fst fs)"
    using structValue.prems by (simp_all add: Struct_def)
  have "\<forall>p\<in>set fs. fromYDB ks (Type_of (snd p)) (toYDB (snd p)) = Inr (snd p)"
  proof
    fix p assume p: "p \<in> set fs"
    then have "round_trips ks (snd p)" using structValue.prems by (auto simp: list_all_iff)
    moreover have "snd p \<in> Basic_BNFs.snds p" by (cases p) simp
    ultimately show "fromYDB ks (Type_of (snd p)) (toYDB (snd p)) = Inr (snd p)"
      using structValue.IH p by blast
  qed
  then have d: "decode_fields (map (\<lambda>p. (fst p, fromYDB ks (snd p)))
        (map (\<lambda>f. (fst f, Type_of (snd f))) fs)) (map (\<lambda>f. toYDB (snd f)) fs) = Inr fs"
    by (rule decode_fields_map)
  have "sort_Slice fst fs = fs" using srt by (simp add: sort_Slice_def sort_key_id_if_sorted)
  then have sv: "StructValue fs = structValue t fs"
    by (simp add: StructValue_def t Struct_def)
  have "fromYDB ks t (toYDB (structValue t fs)) = Inr (StructValue fs)"
    unfolding t fromYDB.simps map_prod_id_alt using d by (simp add: or_null_def)
  then show ?case using sv by simp
next
  case (dictValue t ps)
  then obtain kv rest where ps: "ps = kv # rest" by (cases ps) auto
  have t: "t = dictType (Type_of (fst kv)) (Type_of (snd kv))"
    and srt: "sorted (map (\<lambda>p. ks (fst p)) ps)"
    using dictValue.prems ps by (simp_all add: Dict_def)
  have "\<forall>p\<in>set ps. fromYDB ks (Type_of (fst kv)) (toYDB (fst p)) = Inr (fst p)
      \<and> fromYDB ks (Type_of (snd kv)) (toYDB (snd p)) = Inr (snd p)"
  proof
    fix p assume p: "p \<in> set ps"
    then have r: "round_trips ks (fst p)" "Type_of (fst p) = Type_of (fst kv)"
        "round_trips ks (snd p)" "Type_of (snd p) = Type_of (snd kv)"
      using dictValue.prems ps by (auto simp: list_all_iff)
    have "fst p \<in> Basic_BNFs.fsts p" "snd p \<in> Basic_BNFs.snds p" by (cases p, simp)+
    then have "fromYDB ks (Type_of (fst p)) (toYDB (fst p)) = Inr (fst p)"
        "fromYDB ks (Type_of (snd p)) (toYDB (snd p)) = Inr (snd p)"
      using dictValue.IH p r by blast+
    then show "fromYDB ks (Type_of (fst kv)) (toYDB (fst p)) = Inr (fst p)
      \<and> fromYDB ks (Type_of (snd kv)) (toYDB (snd p)) = Inr (snd p)"
      using r by simp
  qed
  then have d: "decode_pairs (fromYDB ks (Type_of (fst kv))) (fromYDB ks (Type_of (snd kv)))
      (map (\<lambda>kv. (toYDB (fst kv), toYDB (snd kv))) ps) = Inr ps"
    by (rule decode_pairs_map)
  have "sort_Slice (\<lambda>p. ks (fst p)) ps = ps"
    using srt by (simp add: sort_Slice_def sort_key_id_if_sorted)
  then have dv: "DictValue ks ps = Inr (dictValue t ps)"
    using ps by (simp add: DictValue_def t Dict_def)
  show ?case using d dv by (simp add: t or_null_def)
next
  case (variantValue t v idx)
  have rv: "round_trips ks v" using variantValue.prems by simp
  then have ih: "fromYDB ks (Type_of v) (toYDB v) = Inr v" using variantValue.IH by simp
  show ?case
  proof (cases v)
    case (tupleValue tt items)
    then have t: "t = variantType tt variantTypeTuple" using variantValue.prems by simp
    obtain ts where tt: "tt = TupleType ts" using rv tupleValue by (simp add: Tuple_def)
    show ?thesis using ih
      by (simp add: t tt tupleValue or_null_def decode_variant_def VariantValueTuple_def)
  next
    case (structValue tt fs)
    then have t: "t = variantType tt variantTypeStruct" using variantValue.prems by simp
    obtain ts where tt: "tt = StructType ts" using rv structValue by (simp add: Struct_def)
    show ?thesis using ih
      by (simp add: t tt structValue or_null_def decode_variant_def VariantValueStruct_def)
  qed (use variantValue.prems in simp_all)
qed (simp_all add: or_null_def leaf_def VoidValue_def GetBoolValue_def GetInt32Value_def
       GetUint32Value_def GetInt64Value_def GetUint64Value_def GetFloatValue_def
       GetDoubleValue_def GetTextValue_def GetBytesValue_def
       ucast_scast_8_32 ucast_scast_16_32 ucast_ucast_8_32 ucast_ucast_16_32)


lemma FromYDB_round_trip:
  assumes "round_trips ks v"
  shows "FromYDB ks (Type_of v) (toYDB v) = Inr v"
  using fromYDB_toYDB[OF assms] by (simp add: FromYDB_def)

lemma FromYDB_round_trip_example:
  "FromYDB no_key_str
       (Type_of (TupleValue [OptionalValue (OptionalValue (int32Value 5)),
                  NullValue (Optional (Primitive TypeText)),
                  ListValue [uint8Value 1, uint8Value 2]]))
       (toYDB (TupleValue [OptionalValue (OptionalValue (int32Value 5)),
                  NullValue (Optional (Primitive TypeText)),
                  ListValue [uint8Value 1, uint8Value 2]]))
     = Inr (TupleValue [OptionalValue (OptionalValue (int32Value 5)),
                  NullValue (Optional (Primitive TypeText)),
                  ListValue [uint8Value 1, uint8Value 2]])"
  by (rule FromYDB_round_trip)
     (simp add: TupleValue_def OptionalValue_def NullValue_def ListValue_def
        Tuple_def Optional_def List_def)

text \<open>
  An optional value over a list: the encoding takes over only the one-of field of the
  list's message, which is unset, and the items are lost.
\<close>

lemma FromYDB_optional_list_lost:
  "toYDB (OptionalValue (ListValue [int32Value 1])) = leaf Value_unset
   \<and> FromYDB no_key_str (Type_of (OptionalValue (ListValue [int32Value 1])))
       (toYDB (OptionalValue (ListValue [int32Value 1])))
     = Inr (OptionalValue (ListValue []))
   \<and> OptionalValue (ListValue []) \<noteq> OptionalValue (ListValue [int32Value 1])"
  by (simp add: FromYDB_def OptionalValue_def ListValue_def Optional_def List_def EmptyList_def
      or_null_def leaf_def decode_optional_def)

text \<open>
  Claim C1. Decoding the encoding of a value against its type gives the value back, also
  for nested optional values. In the code the optional value whose payload is the null of
  \<open>Optional<Int32>\<close> is encoded as a \<open>NestedValue\<close> around a \<open>NullFlag\<close>, and the optional
  case of \<open>fromYDB\<close> decodes this message to the same value; but \<open>fromYDB\<close> first asks
  \<open>nullValueFromYDB\<close>, which walks through the \<open>NestedValue\<close> without descending the
  type and answers with the null of \<open>Optional<Optional<Int32>>\<close>, a different value.
\<close>

theorem FromYDB_inner_null_lost:
  "toYDB (OptionalValue (NullValue (Primitive TypeInt32)))
     = leaf (Value_NestedValue (leaf Value_NullFlagValue))
   \<and> FromYDB no_key_str (Type_of (OptionalValue (NullValue (Primitive TypeInt32))))
       (toYDB (OptionalValue (NullValue (Primitive TypeInt32))))
     = Inr (NullValue (Optional (Primitive TypeInt32)))
   \<and> NullValue (Optional (Primitive TypeInt32)) \<noteq> OptionalValue (NullValue (Primitive TypeInt32))
   \<and> nullValueFromYDB (toYDB (OptionalValue (NullValue (Primitive TypeInt32))))
       (Type_of (OptionalValue (NullValue (Primitive TypeInt32))))
     = Some (NullValue (Optional (Primitive TypeInt32)))
   \<and> decode_optional (fromYDB no_key_str (Optional (Primitive TypeInt32)))
       (toYDB (OptionalValue (NullValue (Primitive TypeInt32))))
     = Inr (OptionalValue (NullValue (Primitive TypeInt32)))"
  by (simp add: FromYDB_def OptionalValue_def NullValue_def Optional_def or_null_def leaf_def
      decode_optional_def)

section \<open>Properties of discovery\<close>

lemma endpoints_of_filter:
  "endpoints_of s self es =
     map (\<lambda>e. \<lparr>Addr = info_Address e, Port = uint (info_Port e), LoadFactor = F32_bits 0,
               Local = (info_Location e = self)\<rparr>)
       (filter (\<lambda>e. info_Ssl e = s) es)"
  by (induction es) simp_all

text \<open>
  Claim C3. Every returned endpoint carries the reported address, port and load factor.
  In the code the load factor of the response is not copied: an endpoint reported with the
  load factor 0.5 (bit pattern \<open>0x3F000000\<close>) is returned with the load factor zero.
\<close>

theorem Discover_drops_load_factor:
  "Discover
     (\<lambda>db. Inr \<lparr>Endpoints = [\<lparr>info_Address = ''a'', info_Port = 2135,
                   info_LoadFactor = F32_bits 0x3F000000, info_Ssl = False,
                   info_Location = ''dc1''\<rparr>],
                 SelfLocation = ''dc1''\<rparr>)
     \<lparr>database = ''/local'', ssl = False\<rparr>
   = Inr [\<lparr>Addr = ''a'', Port = 2135, LoadFactor = F32_bits 0, Local = True\<rparr>]"
  by (simp add: Discover_def)

section \<open>Properties of the balancer\<close>

lemma pick_Some: "xs \<noteq> [] \<Longrightarrow> \<exists>a. pick xs x = Some a \<and> a \<in> snd ` set xs"
proof (induction xs x rule: pick.induct)
  case (3 wa v va x)
  then show ?case by (cases "x < fst wa") auto
qed simp_all

lemma weighted_choice_Some:
  assumes "es \<noteq> []"
  shows "\<exists>a. weighted_choice w es u = Some a \<and> a \<in> set es"
proof -
  have "map (\<lambda>e. (w (el_load e), e)) es \<noteq> []" using assms by simp
  from pick_Some[OF this]
  obtain a where a: "pick (map (\<lambda>e. (w (el_load e), e)) es)
        (u * sum_list (map (\<lambda>e. w (el_load e)) es)) = Some a"
      "a \<in> snd ` set (map (\<lambda>e. (w (el_load e), e)) es)"
    by blast
  have "snd ` set (map (\<lambda>e. (w (el_load e), e)) es) = set es" by force
  then show ?thesis using a by (simp add: weighted_choice_def)
qed

lemma weighted_choice_None: "(weighted_choice w es u = None) = (es = [])"
proof (cases "es = []")
  case True
  then show ?thesis by (simp add: weighted_choice_def)
next
  case False
  from weighted_choice_Some[OF this] show ?thesis using False by auto
qed

lemma Next_None: "(Next w wb es u = None) = (es = [])"
proof (cases "filter (\<lambda>e. \<not> el_banned e) es = []")
  case True
  then show ?thesis by (simp add: Next_def weighted_choice_None)
next
  case False
  then have "es \<noteq> []" by auto
  then show ?thesis using False by (simp add: Next_def weighted_choice_None)
qed

lemma Next_member:
  assumes "Next w wb es u = Some e"
  shows "e \<in> set es"
proof (cases "filter (\<lambda>e. \<not> el_banned e) es = []")
  case True
  then have c: "weighted_choice wb es u = Some e" using assms by (simp add: Next_def)
  then have "es \<noteq> []" using weighted_choice_None[of wb es u] by auto
  from weighted_choice_Some[OF this, of wb u] c show ?thesis by auto
next
  case False
  then have c: "weighted_choice w (filter (\<lambda>e. \<not> el_banned e) es) u = Some e"
    using assms by (simp add: Next_def)
  from weighted_choice_Some[OF False, of w u] c have "e \<in> set (filter (\<lambda>e. \<not> el_banned e) es)"
    by auto
  then show ?thesis by simp
qed















lemma pick_equal:
  "0 < c \<Longrightarrow> 0 \<le> x \<Longrightarrow> x < c * of_nat (length es) \<Longrightarrow>
   pick (map (\<lambda>e. (c, e)) es) x = Some (es ! nat \<lfloor>x / c\<rfloor>)"
proof (induction es arbitrary: x)
  case Nil
  then show ?case by simp
next
  case (Cons e es)
  show ?case
  proof (cases "x < c")
    case True
    then have "x / c < 1" using Cons.prems(1) by simp
    moreover have "0 \<le> x / c" using Cons.prems(1,2) by simp
    ultimately have "\<lfloor>x / c\<rfloor> = 0" by (simp add: floor_eq_iff)
    then show ?thesis using True by (cases es) simp_all
  next
    case False
    then have ne: "es \<noteq> []" using Cons.prems(3) by auto
    then obtain e' es' where es: "es = e' # es'" by (cases es) auto
    have x1: "0 \<le> x - c" using False by simp
    have x2: "x - c < c * of_nat (length es)"
      using Cons.prems(3) by (simp add: algebra_simps)
    have d: "(x - c) / c = x / c - 1" using Cons.prems(1) by (simp add: diff_divide_distrib)
    have "0 \<le> (x - c) / c" using x1 Cons.prems(1) by simp
    then have "0 \<le> \<lfloor>(x - c) / c\<rfloor>" by simp
    moreover have "\<lfloor>x / c\<rfloor> = \<lfloor>(x - c) / c\<rfloor> + 1" unfolding d by simp
    ultimately have n: "nat \<lfloor>x / c\<rfloor> = Suc (nat \<lfloor>(x - c) / c\<rfloor>)"
      by (metis Suc_nat_eq_nat_zadd1 add.commute)
    have "pick (map (\<lambda>e. (c, e)) es) (x - c) = Some (es ! nat \<lfloor>(x - c) / c\<rfloor>)"
      using Cons.prems(1) x1 x2 by (rule Cons.IH)
    then show ?thesis using False n es by simp
  qed
qed

lemma Next_all_banned:
  assumes "es \<noteq> []" and "list_all el_banned es"
  shows "\<exists>e. Next w wb es u = Some e \<and> e \<in> set es \<and> el_banned e"
proof -
  obtain e where e: "Next w wb es u = Some e"
    using assms(1) Next_None[of w wb es u] by (cases "Next w wb es u") auto
  then have "e \<in> set es" by (rule Next_member)
  then show ?thesis using e assms(2) by (auto simp: list_all_iff)
qed

lemma Next_all_banned_equal:
  assumes ne: "es \<noteq> []" and b: "list_all el_banned es"
    and eq: "list_all (\<lambda>e. el_load e = L) es"
    and pos: "0 < wb L" and u: "0 \<le> u" "u < 1"
  shows "Next w wb es u = Some (es ! nat \<lfloor>u * of_nat (length es)\<rfloor>)"
proof -
  have f: "filter (\<lambda>e. \<not> el_banned e) es = []"
    using b by (simp add: list_all_iff filter_empty_conv)
  have m: "map (\<lambda>e. (wb (el_load e), e)) es = map (\<lambda>e. (wb L, e)) es"
    using eq by (simp add: list_all_iff)
  have c: "sum_list (map (\<lambda>e. wb L) es) = wb L * of_nat (length es)"
    by (induction es) (simp_all add: algebra_simps)
  have me: "map (\<lambda>e. wb (el_load e)) es = map (\<lambda>e. wb L) es"
    using eq by (simp add: list_all_iff)
  have s: "sum_list (map (\<lambda>e. wb (el_load e)) es) = wb L * of_nat (length es)"
    unfolding me by (rule c)
  let ?x = "u * (wb L * of_nat (length es))"
  have n: "0 < (of_nat (length es) :: rat)" using ne by simp
  have x0: "0 \<le> ?x" using u(1) pos by simp
  have "u * of_nat (length es) < of_nat (length es)" using u(2) n by simp
  then have "wb L * (u * of_nat (length es)) < wb L * of_nat (length es)"
    using pos by (simp only: mult_less_cancel_left_pos)
  then have x1: "?x < wb L * of_nat (length es)" by (simp add: mult.assoc mult.left_commute)
  have d: "?x / wb L = u * of_nat (length es)" using pos by simp
  have "pick (map (\<lambda>e. (wb L, e)) es) ?x = Some (es ! nat \<lfloor>?x / wb L\<rfloor>)"
    using pos x0 x1 by (rule pick_equal)
  then show ?thesis unfolding d
    by (simp add: Next_def f weighted_choice_def m s)
qed

lemma banned_all_loaded_elements:
  "elements_of case_banned_all_loaded =
     [\<lparr>el_addr = ''foo'', el_load = 10, el_banned = True\<rparr>,
      \<lparr>el_addr = ''bar'', el_load = 20, el_banned = True\<rparr>,
      \<lparr>el_addr = ''baz'', el_load = 30, el_banned = True\<rparr>]"
  by (simp add: elements_of_def case_banned_all_loaded_def)

lemma banned_all_equal_elements:
  "elements_of case_banned_all_equal =
     [\<lparr>el_addr = ''foo'', el_load = 0, el_banned = True\<rparr>,
      \<lparr>el_addr = ''bar'', el_load = 0, el_banned = True\<rparr>,
      \<lparr>el_addr = ''baz'', el_load = 0, el_banned = True\<rparr>]"
  by (simp add: elements_of_def case_banned_all_equal_def)

lemma Next_spec_all_banned_uniform:
  assumes "es \<noteq> []" and "list_all el_banned es" and "0 \<le> u" and "u < 1"
  shows "Next_spec eps es u = Some (es ! nat \<lfloor>u * of_nat (length es)\<rfloor>)"
proof -
  have f: "filter (\<lambda>e. \<not> el_banned e) es = []"
    using assms(2) by (simp add: list_all_iff filter_empty_conv)
  have s: "sum_list (map (\<lambda>e. 1 :: rat) es) = of_nat (length es)"
    by (induction es) simp_all
  have n: "0 < (of_nat (length es) :: rat)" using assms(1) by simp
  have x0: "0 \<le> u * of_nat (length es)" using assms(3) by simp
  have "u * of_nat (length es) < of_nat (length es)" using assms(4) n by simp
  then have x1: "u * of_nat (length es) < 1 * of_nat (length es)" by simp
  have "pick (map (\<lambda>e. (1, e)) es) (u * of_nat (length es))
      = Some (es ! nat \<lfloor>u * of_nat (length es) / 1\<rfloor>)"
    using zero_less_one x0 x1 by (rule pick_equal)
  then show ?thesis by (simp add: Next_spec_def Next_def f weighted_choice_def s)
qed

lemma count_div:
  assumes "0 < m" and "j < n"
  shows "length (filter (\<lambda>k. k div m = j) [0..<m * n]) = m"
proof -
  have "{i. i < length [0..<m * n] \<and> [0..<m * n] ! i div m = j} = {j * m..<j * m + m}"
  proof (rule set_eqI)
    fix i
    show "i \<in> {i. i < length [0..<m * n] \<and> [0..<m * n] ! i div m = j}
        \<longleftrightarrow> i \<in> {j * m..<j * m + m}"
    proof
      assume "i \<in> {i. i < length [0..<m * n] \<and> [0..<m * n] ! i div m = j}"
      then have i: "i < m * n" and d': "[0..<m * n] ! i div m = j" by auto
      have "[0..<m * n] ! i = i" using i by simp
      then have d: "i div m = j" using d' by simp
      have "i div m * m \<le> i" by (rule div_times_less_eq_dividend)
      then have "j * m \<le> i" using d by simp
      moreover have "i < m + i div m * m" using assms(1) by (rule dividend_less_div_times)
      then have "i < j * m + m" using d by (simp add: add.commute)
      ultimately show "i \<in> {j * m..<j * m + m}" by simp
    next
      assume "i \<in> {j * m..<j * m + m}"
      then have lo: "j * m \<le> i" and hi: "i < j * m + m" by simp_all
      have d: "i div m = j"
        using lo hi assms(1) by (metis div_nat_eqI mult.commute Suc_eq_plus1 mult_Suc add.commute)
      have "Suc j \<le> n" using assms(2) by simp
      then have "m * Suc j \<le> m * n" by (rule mult_le_mono2)
      then have "i < m * n" using hi by (simp add: algebra_simps)
      then show "i \<in> {i. i < length [0..<m * n] \<and> [0..<m * n] ! i div m = j}"
        using d by simp
    qed
  qed
  then show ?thesis by (simp add: length_filter_conv_card)
qed

lemma draw_counts_uniform:
  assumes ne: "es \<noteq> []" and b: "list_all el_banned es"
    and dist: "distinct (map el_addr es)" and j: "j < length es" and m: "0 < m"
  shows "draw_counts (Next_spec eps es) (m * length es) (el_addr (es ! j)) = m"
proof -
  let ?n = "length es"
  have sel: "map_option el_addr (Next_spec eps es (of_nat k / of_nat (m * ?n)))
      = Some (el_addr (es ! j)) \<longleftrightarrow> k div m = j" if k: "k < m * ?n" for k
  proof -
    have n0: "0 < ?n" using ne by simp
    have mn: "0 < (of_nat (m * ?n) :: rat)" using m n0 by simp
    have u0: "0 \<le> (of_nat k / of_nat (m * ?n) :: rat)" by simp
    have "(of_nat k :: rat) < of_nat (m * ?n)" using k by (simp only: of_nat_less_iff)
    then have u1: "(of_nat k / of_nat (m * ?n) :: rat) < 1"
      using mn by (simp only: divide_less_eq_1_pos)
    have "(of_nat k / of_nat (m * ?n) :: rat) * of_nat ?n = of_nat k / of_nat m"
      using n0 by simp
    then have fl: "\<lfloor>(of_nat k / of_nat (m * ?n) :: rat) * of_nat ?n\<rfloor> = int (k div m)"
      by (simp add: floor_divide_of_nat_eq)
    have kd: "k div m < ?n" using k m by (simp add: less_mult_imp_div_less mult.commute)
    have "Next_spec eps es (of_nat k / of_nat (m * ?n)) = Some (es ! (k div m))"
      using Next_spec_all_banned_uniform[OF ne b u0 u1, of eps] fl by simp
    moreover have "el_addr (es ! (k div m)) = el_addr (es ! j) \<longleftrightarrow> k div m = j"
      using nth_eq_iff_index_eq[OF dist, of "k div m" j] kd j by simp
    ultimately show ?thesis by simp
  qed
  have "filter (\<lambda>k. map_option el_addr (Next_spec eps es (of_nat k / of_nat (m * ?n)))
        = Some (el_addr (es ! j))) [0..<m * ?n]
      = filter (\<lambda>k. k div m = j) [0..<m * ?n]"
  proof (rule filter_cong[OF refl])
    fix k assume "k \<in> set [0..<m * ?n]"
    then have "k < m * ?n" by simp
    then show "(map_option el_addr (Next_spec eps es (of_nat k / of_nat (m * ?n)))
        = Some (el_addr (es ! j))) = (k div m = j)"
      by (rule sel)
  qed
  then show ?thesis unfolding draw_counts_def using count_div[OF m j] by (simp only:)
qed

text \<open>
  Claim C7, as stated, for three Banned elements with the load factors 10, 20, 30: under a
  uniform choice among the Banned elements each of them is returned for 50 of the 150
  evenly spread random numbers, a distribution that both tests of the source reject for
  this row, which expects 75, 50, 25.
\<close>

theorem banned_uniform_counterexample:
  "elements_of case_banned_all_loaded =
     [\<lparr>el_addr = ''foo'', el_load = 10, el_banned = True\<rparr>,
      \<lparr>el_addr = ''bar'', el_load = 20, el_banned = True\<rparr>,
      \<lparr>el_addr = ''baz'', el_load = 30, el_banned = True\<rparr>]
   \<and> tc_repeat case_banned_all_loaded = 150
   \<and> draw_counts (Next_spec (1 / 1000) (elements_of case_banned_all_loaded)) 150 ''foo'' = 50
   \<and> draw_counts (Next_spec (1 / 1000) (elements_of case_banned_all_loaded)) 150 ''bar'' = 50
   \<and> draw_counts (Next_spec (1 / 1000) (elements_of case_banned_all_loaded)) 150 ''baz'' = 50
   \<and> tc_exp case_banned_all_loaded = [(''foo'', 75), (''bar'', 50), (''baz'', 25)]
   \<and> TestRoundRobinBalancer_passes case_banned_all_loaded 0
        [(''foo'', 50), (''bar'', 50), (''baz'', 50)] = False
   \<and> TestRandomChoiceBalancer_passes case_banned_all_loaded 0
        [(''foo'', 50), (''bar'', 50), (''baz'', 50)] = False"
proof -
  let ?es = "elements_of case_banned_all_loaded"
  note es = banned_all_loaded_elements
  have ne: "?es \<noteq> []" and b: "list_all el_banned ?es" and d: "distinct (map el_addr ?es)"
    and len: "150 = 50 * length ?es"
    by (simp_all add: es)
  have c: "draw_counts (Next_spec (1 / 1000) ?es) (50 * length ?es) (el_addr (?es ! j)) = 50"
    if "j < length ?es" for j
    using draw_counts_uniform[OF ne b d that, of 50 "1 / 1000"] by simp
  have "draw_counts (Next_spec (1 / 1000) ?es) 150 (el_addr (?es ! 0)) = 50"
      "draw_counts (Next_spec (1 / 1000) ?es) 150 (el_addr (?es ! 1)) = 50"
      "draw_counts (Next_spec (1 / 1000) ?es) 150 (el_addr (?es ! 2)) = 50"
    unfolding len by (rule c, simp add: es)+
  then have counts: "draw_counts (Next_spec (1 / 1000) ?es) 150 ''foo'' = 50"
      "draw_counts (Next_spec (1 / 1000) ?es) 150 ''bar'' = 50"
      "draw_counts (Next_spec (1 / 1000) ?es) 150 ''baz'' = 50"
    by (simp_all add: es)
  have tests: "tc_repeat case_banned_all_loaded = 150"
      "tc_exp case_banned_all_loaded = [(''foo'', 75), (''bar'', 50), (''baz'', 25)]"
      "TestRoundRobinBalancer_passes case_banned_all_loaded 0
        [(''foo'', 50), (''bar'', 50), (''baz'', 50)] = False"
      "TestRandomChoiceBalancer_passes case_banned_all_loaded 0
        [(''foo'', 50), (''bar'', 50), (''baz'', 50)] = False"
    by (simp_all add: case_banned_all_loaded_def TestRoundRobinBalancer_passes_def
        TestRandomChoiceBalancer_passes_def noConn_ok_def act_of_def leftover_ok_def
        within_tolerance_def tolerance_low_def tolerance_high_def)
  from es counts tests show ?thesis by blast
qed

text \<open>
  Claim C7, amended. \<open>Next()\<close> returns \<open>nil\<close> only when there is no element, so a
  connection is returned whenever at least one element exists. When all elements are
  Banned the selection falls back to a random choice among the Banned elements, and this
  choice is uniform when their load factors are equal: element \<open>k\<close> of \<open>n\<close> is returned
  for the random numbers from \<open>k/n\<close> up to \<open>(k+1)/n\<close>.
\<close>

theorem Next_banned_fallback:
  "(Next w wb es u = None) = (es = [])
   \<and> (es \<noteq> [] \<and> list_all el_banned es
        \<longrightarrow> (\<exists>e. Next w wb es u = Some e \<and> e \<in> set es \<and> el_banned e))
   \<and> (es \<noteq> [] \<and> list_all el_banned es \<and> list_all (\<lambda>e. el_load e = L) es
        \<and> 0 < wb L \<and> 0 \<le> u \<and> u < 1
        \<longrightarrow> Next w wb es u = Some (es ! nat \<lfloor>u * of_nat (length es)\<rfloor>))"
  using Next_None[of w wb es u] Next_all_banned[of es w wb u]
    Next_all_banned_equal[of es L wb u w]
  by blast

theorem Next_banned_fallback_witness:
  "elements_of case_banned_all_equal \<noteq> []
   \<and> list_all el_banned (elements_of case_banned_all_equal)
   \<and> list_all (\<lambda>e. el_load e = 0) (elements_of case_banned_all_equal)
   \<and> (0 :: rat) < 1 \<and> (0 :: rat) \<le> 1 / 2 \<and> (1 :: rat) / 2 < 1
   \<and> Next (weight (1 / 1000)) (\<lambda>L. 1) (elements_of case_banned_all_equal) (1 / 2)
       = Some \<lparr>el_addr = ''bar'', el_load = 0, el_banned = True\<rparr>"
proof -
  let ?es = "elements_of case_banned_all_equal"
  note es = banned_all_equal_elements
  have ne: "?es \<noteq> []" and b: "list_all el_banned ?es"
    and eq: "list_all (\<lambda>e. el_load e = 0) ?es"
    by (simp_all add: es)
  have pos: "(0 :: rat) < (\<lambda>L. 1) (0 :: rat)" by simp
  have u: "(0 :: rat) \<le> 1 / 2" "(1 :: rat) / 2 < 1" by simp_all
  have k: "?es ! nat \<lfloor>(1 / 2 :: rat) * of_nat (length ?es)\<rfloor>
      = \<lparr>el_addr = ''bar'', el_load = 0, el_banned = True\<rparr>"
  proof -
    have "\<lfloor>(1 / 2 :: rat) * of_nat (length ?es)\<rfloor> = 1" by (simp add: es floor_eq_iff)
    then show ?thesis by (simp add: es)
  qed
  have "Next (weight (1 / 1000)) (\<lambda>L. 1) ?es (1 / 2)
      = Some (?es ! nat \<lfloor>(1 / 2 :: rat) * of_nat (length ?es)\<rfloor>)"
    using Next_banned_fallback[of "weight (1 / 1000)" "\<lambda>L. 1" ?es "1 / 2" 0] ne b eq pos u
    by blast
  then have "Next (weight (1 / 1000)) (\<lambda>L. 1) ?es (1 / 2)
      = Some \<lparr>el_addr = ''bar'', el_load = 0, el_banned = True\<rparr>"
    unfolding k .
  moreover have "(0 :: rat) < 1" by simp
  ultimately show ?thesis using ne b eq u by blast
qed

end
